(* ===== verification/Prelude.thy ===== *)
theory Prelude
  imports Main "HOL-Library.Word" "HOL-Library.Sublist" "HOL-Library.AList"
begin

text \<open>
  Shared vocabulary of the development: the byte type of buffers, the JavaScript string
  primitives that \<open>src/bridge.ts\<close> calls (\<open>String.prototype.toLowerCase\<close> and
  \<open>String.prototype.includes\<close>), the insertion-ordered property map of JavaScript
  (\<open>Map.prototype.set\<close>, modelled by \<^const>\<open>AList.update\<close>), and the generic lemmas on
  them that the component theories share.  The collection \<open>js_simps\<close> gathers the
  evaluation rules of the primitives, \<open>model_defs\<close> the non-recursive definitions of
  the component theories, so that witnesses compute by \<open>simp\<close>.
\<close>

named_theorems js_simps "evaluation rules of the JavaScript primitives"
named_theorems model_defs "definitions unfolded when the model runs on a concrete input"

type_synonym byte = "8 word"
type_synonym bytes = "byte list"

subsection \<open>JavaScript strings\<close>

text \<open>
  A JavaScript string is modelled as a \<^typ>\<open>string\<close>, one \<^typ>\<open>char\<close> per code unit.
  \<open>toLowerCase\<close> is modelled on the ASCII range, which is the range of every literal the
  program compares against.
\<close>

definition is_ascii_upper :: "char \<Rightarrow> bool" where
  "is_ascii_upper c \<longleftrightarrow> 65 \<le> (of_char c :: nat) \<and> (of_char c :: nat) \<le> 90"

definition js_lower_char :: "char \<Rightarrow> char" where
  "js_lower_char c = (if is_ascii_upper c then char_of ((of_char c :: nat) + 32) else c)"

definition js_toLowerCase :: "string \<Rightarrow> string" where
  "js_toLowerCase s = map js_lower_char s"

fun starts_with :: "string \<Rightarrow> string \<Rightarrow> bool" where
  "starts_with s [] = True"
| "starts_with [] (_ # _) = False"
| "starts_with (c # cs) (d # ds) = (c = d \<and> starts_with cs ds)"

fun js_includes :: "string \<Rightarrow> string \<Rightarrow> bool" where
  "js_includes [] needle = (needle = [])"
| "js_includes (c # cs) needle = (starts_with (c # cs) needle \<or> js_includes cs needle)"

declare is_ascii_upper_def [js_simps] char_of_eq_iff [js_simps] js_lower_char_def [js_simps] js_toLowerCase_def [js_simps]

lemma starts_with_prefix: "starts_with s p \<longleftrightarrow> prefix p s"
  by (induction s p rule: starts_with.induct) auto

text \<open>\<open>includes\<close> is the contiguous-sublist relation of \<open>HOL-Library.Sublist\<close>.\<close>

lemma js_includes_sublist: "js_includes s p \<longleftrightarrow> sublist p s"
  by (induction s) (auto simp: starts_with_prefix sublist_Cons_right)

lemma js_lower_char_not_upper: "\<not> is_ascii_upper (js_lower_char c)"
  by (auto simp: js_lower_char_def is_ascii_upper_def)

lemma js_lower_char_idem [simp]: "js_lower_char (js_lower_char c) = js_lower_char c"
  by (simp only: js_lower_char_def [of "js_lower_char c"] js_lower_char_not_upper if_False)

lemma js_toLowerCase_idem [simp]: "js_toLowerCase (js_toLowerCase s) = js_toLowerCase s"
  by (simp add: js_toLowerCase_def)

lemma js_toLowerCase_no_upper: "c \<in> set (js_toLowerCase s) \<Longrightarrow> \<not> is_ascii_upper c"
  by (auto simp: js_toLowerCase_def js_lower_char_not_upper)

text \<open>
  A needle holding an upper-case ASCII letter is never found in a lower-cased string:
  the fact behind the sanitizer finding on the keywords \<open>_G\<close> and \<open>MarketplaceService\<close>.
\<close>

lemma js_includes_upper_lowered:
  assumes "c \<in> set needle" and "is_ascii_upper c"
  shows "\<not> js_includes (js_toLowerCase s) needle"
proof
  assume "js_includes (js_toLowerCase s) needle"
  then have "set needle \<subseteq> set (js_toLowerCase s)"
    by (auto simp: js_includes_sublist sublist_def)
  with assms show False
    using js_toLowerCase_no_upper by blast
qed

subsection \<open>Insertion-ordered maps\<close>

text \<open>
  A JavaScript \<open>Map\<close> iterates in insertion order and keeps one entry per key;
  \<open>set\<close> on a present key replaces the value in place.  That is \<^const>\<open>AList.update\<close>
  on an association list whose keys are distinct.
\<close>

abbreviation keys :: "('k \<times> 'v) list \<Rightarrow> 'k list" where
  "keys al \<equiv> map fst al"

lemma keys_update_set [simp]: "fst ` set (AList.update k v al) = insert k (fst ` set al)"
  by (induction al) auto

lemma distinct_keys_update [simp]:
  "distinct (keys al) \<Longrightarrow> distinct (keys (AList.update k v al))"
  by (rule distinct_update)

lemma update_keys_same:
  "k \<in> set (keys al) \<Longrightarrow> keys (AList.update k v al) = keys al"
  by (induction al) auto

lemma update_fresh: "k \<notin> fst ` set al \<Longrightarrow> AList.update k v al = al @ [(k, v)]"
  by (induction al) auto

lemma map_of_update_same [simp]: "map_of (AList.update k v al) k = Some v"
  by (simp add: update_conv')

lemma map_of_update_other [simp]: "k' \<noteq> k \<Longrightarrow> map_of (AList.update k v al) k' = map_of al k'"
  by (simp add: update_conv')

subsection \<open>Runs of a deterministic step relation\<close>

text \<open>
  For a step relation with at most one successor per state, two runs from the same
  state that both end in a state without successor end in the same state.
\<close>

lemma deterministic_final_unique:
  assumes det: "\<And>x y z. r x y \<Longrightarrow> r x z \<Longrightarrow> y = z"
  shows "r\<^sup>*\<^sup>* x y \<Longrightarrow> r\<^sup>*\<^sup>* x z \<Longrightarrow> \<nexists>w. r y w \<Longrightarrow> \<nexists>w. r z w \<Longrightarrow> y = z"
proof (induction x arbitrary: z rule: converse_rtranclp_induct)
  case base
  then show ?case by (auto elim: converse_rtranclpE)
next
  case (step x x')
  note IH = step.IH and xx' = step.hyps(1) and fin = step.prems(2,3)
  from step.prems(1) show ?case
  proof (cases rule: converse_rtranclpE)
    case base
    with xx' fin(2) show ?thesis by blast
  next
    case (step x'')
    from step(1) have "x' = x''" by (rule det [OF xx'])
    with step(2) IH fin show ?thesis by blast
  qed
qed

end
