(* ===== verification/Model.thy ===== *)
theory Model
  imports Prelude
begin

text \<open>
  The property-value and instance model of \<open>src/bridge.ts\<close>.  An rbxm-parser
  \<open>Instance\<close> is a value of type \<open>inst\<close>: its identity (the object the script-source cache
  is keyed by), its \<open>Name\<close>, the class of the JavaScript object (an rbxm-parser class or
  the program's \<open>GenericInstance\<close>, lines 22--54), its property map \<open>_props\<close> and its
  ordered \<open>Children\<close>.  \<open>SetProp\<close> of \<open>GenericInstance\<close> is translated from the
  source; \<open>SetProp\<close> of the rbxm-parser base class is a parameter of type
  \<open>lib_SetProp\<close> (\<open>None\<close> is a thrown exception), with \<open>Instance_SetProp\<close> the
  store-and-succeed behaviour that the specification describes.
\<close>

subsection \<open>Property values\<close>

text \<open>
  The code compares type tags with the string literals \<open>'String'\<close> and
  \<open>'BinaryString'\<close> (lines 46 and 137), so a tag is a string; \<open>DataType.String\<close>
  (line 159) is the tag \<open>''String''\<close>.
\<close>

type_synonym type_tag = string

text \<open>The payload \<open>value.value\<close> of a typed property, as far as the code inspects it.\<close>

datatype raw =
    RText string
  | RBuffer bytes
  | RNumber int
  | RBool bool
  | RObject
  | RMissing

text \<open>
  An entry of \<open>_props\<close>: \<open>undefined\<close>, \<open>null\<close>, an object with \<open>type\<close> and
  \<open>value\<close> fields, or any other value.
\<close>

datatype pvalue =
    PUndefined
  | PNull
  | PTyped type_tag raw
  | PPlain

type_synonym bag = "(string \<times> pvalue) list"

definition DataType_String :: type_tag where
  "DataType_String = ''String''"

text \<open>\<open>x.length\<close> where \<open>x\<close> may have no length: \<open>undefined > n\<close> is false.\<close>

fun raw_length :: "raw \<Rightarrow> nat option" where
  "raw_length (RText s) = Some (length s)"
| "raw_length (RBuffer b) = Some (length b)"
| "raw_length _ = None"

text \<open>\<open>typeof x === 'string'\<close> on a payload.\<close>

fun is_js_string :: "raw \<Rightarrow> bool" where
  "is_js_string (RText _) = True"
| "is_js_string _ = False"

definition longer_than :: "raw \<Rightarrow> nat \<Rightarrow> bool" where
  "longer_than r n = (case raw_length r of Some l \<Rightarrow> n < l | None \<Rightarrow> False)"

subsection \<open>Instances\<close>

text \<open>
  The JavaScript class of a node: an rbxm-parser class (whose \<open>ClassName\<close> is its own
  name), or \<open>GenericInstance\<close> with its fields \<open>_customClassName\<close> and
  \<open>_propertyValidationsEnabled\<close>.
\<close>

datatype node_kind =
    LibInstance string
  | GenericInstance string bool

primrec kind_ClassName :: "node_kind \<Rightarrow> string" where
  "kind_ClassName (LibInstance c) = c"
| "kind_ClassName (GenericInstance c _) = c"

datatype inst = Inst (uid: nat) (Name: string) (kind: node_kind) (props: bag) (Children: "inst list")

definition ClassName :: "inst \<Rightarrow> string" where
  "ClassName n = kind_ClassName (kind n)"

text \<open>
  The constructor of \<open>GenericInstance\<close> (lines 26--36): the class name is kept verbatim
  and validations start enabled.  A fresh node has no properties and no children.
\<close>

definition new_GenericInstance :: "string \<Rightarrow> node_kind" where
  "new_GenericInstance className = GenericInstance className True"

definition enablePropertyValidation :: "bool \<Rightarrow> node_kind \<Rightarrow> node_kind option" where
  "enablePropertyValidation enable k =
     (case k of GenericInstance c _ \<Rightarrow> Some (GenericInstance c enable) | LibInstance _ \<Rightarrow> None)"

text \<open>
  The \<open>Source\<close> accessor of a script (rbxm-parser): the text payload of the
  \<open>Source\<close> property, or \<open>undefined\<close>; assignment stores a new text payload.
\<close>

definition Source :: "inst \<Rightarrow> string option" where
  "Source n = (case map_of (props n) ''Source'' of
                 Some (PTyped _ (RText s)) \<Rightarrow> Some s
               | _ \<Rightarrow> None)"

definition set_Source :: "string \<Rightarrow> inst \<Rightarrow> inst" where
  "set_Source s n = (case n of Inst u nm k ps cs \<Rightarrow>
                       Inst u nm k (AList.update ''Source'' (PTyped DataType_String (RText s)) ps) cs)"

subsection \<open>SetProp\<close>

text \<open>
  \<open>SetProp(name, type, value)\<close> on a property map: \<open>None\<close> when it throws, otherwise its
  boolean result and the new map.
\<close>

type_synonym lib_SetProp = "string \<Rightarrow> type_tag \<Rightarrow> raw \<Rightarrow> bag \<Rightarrow> (bool \<times> bag) option"

definition Instance_SetProp :: lib_SetProp where
  "Instance_SetProp name type value bag = Some (True, AList.update name (PTyped type value) bag)"

definition GenericInstance_SetProp :: "lib_SetProp \<Rightarrow> bool \<Rightarrow> lib_SetProp" where
  "GenericInstance_SetProp super enabled name type value bag =
     (if enabled then
        (if name = ''UniqueId'' then Some (False, bag)
         else if type = ''String'' \<and> is_js_string value \<and> longer_than value 500000
              then Some (False, bag)
         else super name type value bag)
      else super name type value bag)"

primrec SetProp :: "lib_SetProp \<Rightarrow> node_kind \<Rightarrow> lib_SetProp" where
  "SetProp lib (LibInstance c) = lib"
| "SetProp lib (GenericInstance c enabled) = GenericInstance_SetProp lib enabled"

text \<open>
  The guard of \<open>GenericInstance.SetProp\<close> (lines 43--50): when it holds the call
  returns \<open>false\<close> and leaves the map alone.
\<close>

primrec SetProp_rejects :: "node_kind \<Rightarrow> string \<Rightarrow> type_tag \<Rightarrow> raw \<Rightarrow> bool" where
  "SetProp_rejects (LibInstance c) name type value = False"
| "SetProp_rejects (GenericInstance c enabled) name type value =
     (enabled \<and> (name = ''UniqueId'' \<or> (type = ''String'' \<and> is_js_string value \<and> longer_than value 500000)))"

text \<open>A property map as the program keeps it: one entry per key, no \<open>UniqueId\<close>.\<close>

definition props_ok :: "bag \<Rightarrow> bool" where
  "props_ok b \<longleftrightarrow> distinct (map fst b) \<and> ''UniqueId'' \<notin> set (map fst b)"

text \<open>
  The contract the cloner needs of the library's \<open>SetProp\<close>: it writes at most the key it
  is given and keeps the keys of the map distinct.
\<close>

definition lib_keys_ok :: "lib_SetProp \<Rightarrow> bool" where
  "lib_keys_ok lib \<longleftrightarrow>
     (\<forall>k t v b r b'. lib k t v b = Some (r, b') \<longrightarrow>
        set (keys b') \<subseteq> insert k (set (keys b)) \<and> (distinct (keys b) \<longrightarrow> distinct (keys b')))"

definition lib_total :: "lib_SetProp \<Rightarrow> bool" where
  "lib_total lib \<longleftrightarrow> (\<forall>k t v b. lib k t v b \<noteq> None)"

subsection \<open>Errors\<close>

text \<open>Every exception the program can raise or throw, as a value.\<close>

datatype error =
    SetPropThrew string
  | NoTargetRoot
  | InvalidInfectionStructure
  | InvalidOrEmptyModel
  | InvalidOrEmptyInfection
  | SerializeFailed
  | ReadFailed string
  | DecodeFailed

subsection \<open>Trees\<close>

text \<open>The nodes of a tree in pre-order, and its shape (names, class names, child order).\<close>

primrec nodes :: "inst \<Rightarrow> inst list" and nodes_list :: "inst list \<Rightarrow> inst list" where
  "nodes (Inst u nm k ps cs) = Inst u nm k ps cs # nodes_list cs"
| "nodes_list [] = []"
| "nodes_list (c # cs) = nodes c @ nodes_list cs"

datatype shape = Shape string string "shape list"

primrec shape_of :: "inst \<Rightarrow> shape" where
  "shape_of (Inst u nm k ps cs) = Shape nm (kind_ClassName k) (map shape_of cs)"

declare DataType_String_def [model_defs] longer_than_def [model_defs] ClassName_def [model_defs]
  new_GenericInstance_def [model_defs] Source_def [model_defs] set_Source_def [model_defs]
  Instance_SetProp_def [model_defs] GenericInstance_SetProp_def [model_defs] props_ok_def [model_defs]

lemma ClassName_Inst [simp]: "ClassName (Inst u nm k ps cs) = kind_ClassName k"
  by (simp add: ClassName_def)

lemma nodes_list_append [simp]: "nodes_list (xs @ ys) = nodes_list xs @ nodes_list ys"
  by (induction xs) auto

lemma nodes_list_conv: "nodes_list cs = concat (map nodes cs)"
  by (induction cs) auto

lemma lib_keys_ok_Instance_SetProp: "lib_keys_ok Instance_SetProp"
  by (auto simp: lib_keys_ok_def Instance_SetProp_def)

lemma lib_total_Instance_SetProp: "lib_total Instance_SetProp"
  by (simp add: lib_total_def Instance_SetProp_def)

lemma SetProp_cases:
  "SetProp lib k name type value bag = Some (r, bag') \<Longrightarrow>
     (bag' = bag) \<or> lib name type value bag = Some (r, bag')"
  by (cases k) (auto simp: GenericInstance_SetProp_def split: if_splits)

lemma SetProp_keys:
  assumes "lib_keys_ok lib" and "SetProp lib k name type value bag = Some (r, bag')"
  shows "set (keys bag') \<subseteq> insert name (set (keys bag))"
    and "distinct (keys bag) \<Longrightarrow> distinct (keys bag')"
  using SetProp_cases [OF assms(2)] assms(1) unfolding lib_keys_ok_def by blast+

lemma SetProp_Instance_SetProp:
  "SetProp Instance_SetProp k name type value bag =
     (if SetProp_rejects k name type value then Some (False, bag)
      else Some (True, AList.update name (PTyped type value) bag))"
  by (cases k) (auto simp: GenericInstance_SetProp_def Instance_SetProp_def)

lemma SetProp_total: "lib_total lib \<Longrightarrow> SetProp lib k name type value bag \<noteq> None"
  by (cases k) (auto simp: lib_total_def GenericInstance_SetProp_def)

lemma Source_set_Source: "Source (set_Source s n) = Some s"
  by (cases n) (simp add: Source_def set_Source_def)

subsection \<open>Properties of SetProp\<close>

text \<open>
  C17: the size guard of \<open>GenericInstance.SetProp\<close> and its exact boundary: a
  \<open>String\<close> of more than 500000 characters returns \<open>false\<close> and leaves the map
  unchanged, whatever the name and whatever the library would have done, while a
  \<open>String\<close> of exactly 500000 characters under another name than \<open>UniqueId\<close>
  reaches the library's \<open>SetProp\<close> unchanged.
\<close>

theorem SetProp_large_String_rejected:
  assumes "length s > 500000"
  shows "SetProp lib (GenericInstance c True) name ''String'' (RText s) bag = Some (False, bag) \<and>
         SetProp lib (GenericInstance c True) ''Value'' ''String'' (RText (replicate 500000 ch)) bag =
           lib ''Value'' ''String'' (RText (replicate 500000 ch)) bag"
  using assms by (simp add: GenericInstance_SetProp_def longer_than_def)

theorem SetProp_large_String_rejected_witness:
  "length (replicate 500001 CHR ''a'') > 500000 \<and>
   SetProp Instance_SetProp (GenericInstance ''Tool'' True) ''Source'' ''String''
     (RText (replicate 500001 CHR ''a'')) [] = Some (False, [])"
  using SetProp_large_String_rejected [of "replicate 500001 CHR ''a''" Instance_SetProp "''Tool''"
      "''Source''" "[]"]
  by simp

end
