(* ===== verification/Registry.thy ===== *)
theory Registry
  imports Model
begin

text \<open>
  The class registry \<open>instanceConstructors\<close> of \<open>src/bridge.ts\<close> (lines 56--68) and the
  constructor choice of \<open>cloneInstance\<close> (lines 124--129): a known class name builds the
  rbxm-parser class of that name, any other name a \<open>GenericInstance\<close> carrying the
  name verbatim.
\<close>

definition instanceConstructors :: "(string \<times> node_kind) list" where
  "instanceConstructors =
     [(''Model'', LibInstance ''Model''),
      (''Script'', LibInstance ''Script''),
      (''ModuleScript'', LibInstance ''ModuleScript''),
      (''Folder'', LibInstance ''Folder''),
      (''BuoyancySensor'', LibInstance ''BuoyancySensor''),
      (''Configuration'', LibInstance ''Configuration''),
      (''AtmosphereSensor'', LibInstance ''AtmosphereSensor''),
      (''ControllerPartSensor'', LibInstance ''ControllerPartSensor''),
      (''FluidForceSensor'', LibInstance ''FluidForceSensor''),
      (''ClickDetector'', LibInstance ''ClickDetector''),
      (''IntValue'', LibInstance ''IntValue'')]"

definition construct_instance :: "string \<Rightarrow> node_kind" where
  "construct_instance className =
     (case map_of instanceConstructors className of
        Some ctor \<Rightarrow> ctor
      | None \<Rightarrow> new_GenericInstance className)"

lemma registry_entries_named: "(c, k) \<in> set instanceConstructors \<Longrightarrow> k = LibInstance c"
  by (auto simp: instanceConstructors_def)

text \<open>C19: the object built for a class name reports that class name.\<close>

theorem construct_instance_ClassName: "kind_ClassName (construct_instance c) = c"
proof (cases "map_of instanceConstructors c")
  case None
  then show ?thesis by (simp add: construct_instance_def new_GenericInstance_def)
next
  case (Some k)
  then have "k = LibInstance c"
    by (auto dest: map_of_SomeD registry_entries_named)
  with Some show ?thesis by (simp add: construct_instance_def)
qed

lemma construct_instance_cases:
  "construct_instance c = (if c \<in> fst ` set instanceConstructors then LibInstance c
                           else GenericInstance c True)"
proof (cases "map_of instanceConstructors c")
  case None
  moreover from None have "c \<notin> fst ` set instanceConstructors"
    by (simp add: map_of_eq_None_iff)
  ultimately show ?thesis
    by (simp only: construct_instance_def new_GenericInstance_def option.case if_False)
next
  case (Some k)
  then have "k = LibInstance c" and "c \<in> fst ` set instanceConstructors"
    by (auto dest: map_of_SomeD registry_entries_named intro: rev_image_eqI)
  with Some show ?thesis by (simp add: construct_instance_def)
qed

end
