(* ===== verification/Clone.thy ===== *)
theory Clone
  imports Registry
begin

text \<open>
  The tree cloner of \<open>src/bridge.ts\<close>: the script-source cache and
  \<open>cacheScriptSources\<close> (lines 70, 81--93), the property copy of \<open>cloneInstance\<close>
  (lines 131--151), its script-source step (lines 156--164) and the whole recursive
  \<open>cloneInstance\<close> (lines 121--173).  The module-level cache and the allocation of
  fresh objects are the run-time state \<open>rt_state\<close>; an exception is an \<open>Inl\<close>.
  \<open>cloneInstance\<close> returns the parent with the new node appended, which is what setting
  \<open>newInstance.Parent\<close> (line 154) does to the parent.  The lemmas show the shape
  of a clone, that it returns when the library never throws, the property maps it
  builds, and that two clones run in step from states whose caches agree with the donor
  sources give the same result (\<open>clone_cache_agree\<close>).
\<close>

subsection \<open>Run-time state\<close>

record rt_state =
  scriptSourceCache :: "nat \<rightharpoonup> string"
  next_uid :: nat

text \<open>
  Setting \<open>Parent\<close> on a fresh node appends it to the new parent's children
  (rbxm-parser).
\<close>

definition append_child :: "inst \<Rightarrow> inst \<Rightarrow> inst" where
  "append_child p n = (case p of Inst u nm k ps cs \<Rightarrow> Inst u nm k ps (cs @ [n]))"

definition is_cached_script_class :: "string \<Rightarrow> bool" where
  "is_cached_script_class c \<longleftrightarrow> c = ''Script'' \<or> c = ''ModuleScript''"

primrec cacheScriptSources :: "inst \<Rightarrow> rt_state \<Rightarrow> rt_state"
  and cacheScriptSources_list :: "inst list \<Rightarrow> rt_state \<Rightarrow> rt_state" where
  "cacheScriptSources (Inst u nm k ps cs) st =
     cacheScriptSources_list cs
       (if is_cached_script_class (kind_ClassName k) then
          (case Source (Inst u nm k ps cs) of
             Some s \<Rightarrow> st\<lparr>scriptSourceCache := (scriptSourceCache st)(u \<mapsto> s)\<rparr>
           | None \<Rightarrow> st)
        else st)"
| "cacheScriptSources_list [] st = st"
| "cacheScriptSources_list (c # cs) st = cacheScriptSources_list cs (cacheScriptSources c st)"

subsection \<open>Copying the properties\<close>

definition is_large_BinaryString :: "pvalue \<Rightarrow> bool" where
  "is_large_BinaryString v =
     (case v of PTyped t r \<Rightarrow> t = ''BinaryString'' \<and> longer_than r 1000000 | _ \<Rightarrow> False)"

fun clone_props :: "lib_SetProp \<Rightarrow> node_kind \<Rightarrow> bag \<Rightarrow> bag \<Rightarrow> bag" where
  "clone_props lib k [] targetProps = targetProps"
| "clone_props lib k ((key, value) # ps) targetProps =
     (if key = ''UniqueId'' then clone_props lib k ps targetProps
      else if is_large_BinaryString value then clone_props lib k ps targetProps
      else (case value of
              PTyped t r \<Rightarrow>
                (case SetProp lib k key t r targetProps of
                   Some (_, targetProps') \<Rightarrow> clone_props lib k ps targetProps'
                 | None \<Rightarrow> clone_props lib k ps (AList.update key value targetProps))
            | _ \<Rightarrow> clone_props lib k ps targetProps))"

subsection \<open>The script source\<close>

definition cloneScriptSource ::
  "lib_SetProp \<Rightarrow> node_kind \<Rightarrow> inst \<Rightarrow> bag \<Rightarrow> rt_state \<Rightarrow> error + (bag \<times> rt_state)" where
  "cloneScriptSource lib k sourceInstance bag st =
     (if is_cached_script_class (ClassName sourceInstance) then
        (case scriptSourceCache st (uid sourceInstance) of
           Some cachedSource \<Rightarrow>
             (case SetProp lib k ''Source'' DataType_String (RText cachedSource) bag of
                None \<Rightarrow> Inl (SetPropThrew ''Source'')
              | Some (_, bag') \<Rightarrow> Inr (bag', st))
         | None \<Rightarrow>
             (case Source sourceInstance of
                Some s \<Rightarrow>
                  (let st' = st\<lparr>scriptSourceCache := (scriptSourceCache st)(uid sourceInstance \<mapsto> s)\<rparr>
                   in case SetProp lib k ''Source'' DataType_String (RText s) bag of
                        None \<Rightarrow> Inl (SetPropThrew ''Source'')
                      | Some (_, bag') \<Rightarrow> Inr (bag', st'))
              | None \<Rightarrow> Inr (bag, st)))
      else Inr (bag, st))"

text \<open>
  Which entries of a source map survive the copy into a node of class \<open>k\<close> when the
  library stores every value it is given: not \<open>UniqueId\<close>, not a large
  \<open>BinaryString\<close>, only typed values, and nothing the node's \<open>SetProp\<close> rejects.
\<close>

definition clone_keeps :: "node_kind \<Rightarrow> string \<times> pvalue \<Rightarrow> bool" where
  "clone_keeps k kv =
     (case kv of (key, value) \<Rightarrow>
        key \<noteq> ''UniqueId'' \<and> \<not> is_large_BinaryString value \<and>
        (case value of PTyped t r \<Rightarrow> \<not> SetProp_rejects k key t r | _ \<Rightarrow> False))"

subsection \<open>cloneInstance\<close>

fun cloneInstance :: "lib_SetProp \<Rightarrow> inst \<Rightarrow> inst \<Rightarrow> rt_state \<Rightarrow> error + (inst \<times> rt_state)"
  and cloneChildren :: "lib_SetProp \<Rightarrow> inst list \<Rightarrow> inst \<Rightarrow> rt_state \<Rightarrow> error + (inst \<times> rt_state)"
where
  "cloneInstance lib (Inst u nm k ps cs) targetParent st =
     (let k' = construct_instance (kind_ClassName k);
          nid = next_uid st;
          st1 = st\<lparr>next_uid := Suc nid\<rparr>;
          targetProps = clone_props lib k' ps []
      in case cloneScriptSource lib k' (Inst u nm k ps cs) targetProps st1 of
           Inl e \<Rightarrow> Inl e
         | Inr (targetProps', st2) \<Rightarrow>
             (case cloneChildren lib cs (Inst nid nm k' targetProps' []) st2 of
                Inl e \<Rightarrow> Inl e
              | Inr (newInstance, st3) \<Rightarrow> Inr (append_child targetParent newInstance, st3)))"
| "cloneChildren lib [] p st = Inr (p, st)"
| "cloneChildren lib (c # cs) p st =
     (case cloneInstance lib c p st of
        Inl e \<Rightarrow> Inl e
      | Inr (p', st') \<Rightarrow> cloneChildren lib cs p' st')"

text \<open>A donor root of the specification's end-to-end example, and a target root.\<close>

abbreviation ex_Part1 :: inst where
  "ex_Part1 \<equiv> Inst 1 ''Part1'' (LibInstance ''Model'')
     [(''UniqueId'', PTyped ''UniqueId'' (RText ''x'')), (''Color'', PTyped ''Color3'' RObject)] []"

abbreviation ex_Workspace :: inst where
  "ex_Workspace \<equiv> Inst 0 ''Workspace'' (LibInstance ''Workspace'') [] []"

abbreviation ex_st0 :: rt_state where
  "ex_st0 \<equiv> \<lparr>scriptSourceCache = Map.empty, next_uid = 100\<rparr>"

text \<open>
  The cache agrees with the trees it serves: for every node \<open>m\<close> of \<open>N\<close> whose
  class is cached, the entry at its identity is absent or is its current source.
\<close>

definition cache_consistent :: "inst list \<Rightarrow> rt_state \<Rightarrow> bool" where
  "cache_consistent N st \<longleftrightarrow>
     (\<forall>m \<in> set N. is_cached_script_class (ClassName m) \<longrightarrow>
        scriptSourceCache st (uid m) = None \<or> scriptSourceCache st (uid m) = Source m)"

text \<open>
  Two runs in step: they allocate the same identities and both caches agree with
  \<open>N\<close>; two results agree when they are the same error, or the same value reached in
  two states in step.
\<close>

definition same_run :: "inst list \<Rightarrow> rt_state \<Rightarrow> rt_state \<Rightarrow> bool" where
  "same_run N st1 st2 \<longleftrightarrow>
     next_uid st1 = next_uid st2 \<and> cache_consistent N st1 \<and> cache_consistent N st2"

definition run_agree :: "inst list \<Rightarrow> error + ('a \<times> rt_state) \<Rightarrow> error + ('a \<times> rt_state) \<Rightarrow> bool" where
  "run_agree N r1 r2 \<longleftrightarrow>
     (case r1 of
        Inl e \<Rightarrow> r2 = Inl e
      | Inr (a, s1) \<Rightarrow> (\<exists>s2. r2 = Inr (a, s2) \<and> same_run N s1 s2))"

declare append_child_def [model_defs] is_cached_script_class_def [model_defs]
  cloneScriptSource_def [model_defs] is_large_BinaryString_def [model_defs]
  construct_instance_def [model_defs] instanceConstructors_def [model_defs]
  clone_keeps_def [model_defs]

subsection \<open>Structure of a clone\<close>

lemma append_child_eq: "append_child p n = Inst (uid p) (Name p) (kind p) (props p) (Children p @ [n])"
  by (cases p) (simp add: append_child_def)

lemma cloneScriptSource_Inr:
  "lib_total lib \<Longrightarrow> \<exists>r. cloneScriptSource lib k src bag st = Inr r"
  by (auto simp: cloneScriptSource_def Let_def dest: SetProp_total split: option.split)

text \<open>
  Elimination rules for a clone that returned: they name the intermediate results of
  \<open>cloneInstance\<close> and of one round of the children loop, so that the inductions
  below are short Isar steps over them.
\<close>

lemma cloneInstance_InrE:
  assumes "cloneInstance lib (Inst u nm k ps cs) p st = Inr (p', st')"
  obtains tp' st2 nn where
    "cloneScriptSource lib (construct_instance (kind_ClassName k)) (Inst u nm k ps cs)
       (clone_props lib (construct_instance (kind_ClassName k)) ps [])
       (st\<lparr>next_uid := Suc (next_uid st)\<rparr>) = Inr (tp', st2)"
    and "cloneChildren lib cs (Inst (next_uid st) nm (construct_instance (kind_ClassName k)) tp' []) st2 =
           Inr (nn, st')"
    and "p' = append_child p nn"
  using assms by (auto simp: Let_def split: sum.splits prod.splits)

lemma cloneChildren_ConsE:
  assumes "cloneChildren lib (c # cs) p st = Inr (p', st')"
  obtains p1 st1 where "cloneInstance lib c p st = Inr (p1, st1)"
    and "cloneChildren lib cs p1 st1 = Inr (p', st')"
  using assms by (auto split: sum.splits)

lemma cloneChildren_Nil_shape:
  "cloneChildren lib [] p st = Inr (p', st') \<Longrightarrow>
     p' = Inst (uid p) (Name p) (kind p) (props p) (Children p @ [])"
  by (cases p) simp

lemma clone_shape_aux:
  "cloneInstance lib src p st = Inr (p', st') \<Longrightarrow>
     \<exists>n. p' = append_child p n \<and> shape_of n = shape_of src"
and cloneChildren_shape_aux:
  "cloneChildren lib cs p st = Inr (p', st') \<Longrightarrow>
     \<exists>ns. p' = Inst (uid p) (Name p) (kind p) (props p) (Children p @ ns) \<and>
          map shape_of ns = map shape_of cs"
proof (induction lib src p st and lib cs p st arbitrary: p' st' and p' st'
       rule: cloneInstance_cloneChildren.induct)
  case (1 lib u nm k ps cs p st)
  from "1.prems" obtain tp' st2 nn where src: "cloneScriptSource lib (construct_instance (kind_ClassName k))
       (Inst u nm k ps cs) (clone_props lib (construct_instance (kind_ClassName k)) ps [])
       (st\<lparr>next_uid := Suc (next_uid st)\<rparr>) = Inr (tp', st2)"
    and ch: "cloneChildren lib cs (Inst (next_uid st) nm (construct_instance (kind_ClassName k)) tp' []) st2 =
           Inr (nn, st')"
    and p': "p' = append_child p nn"
    by (rule cloneInstance_InrE)
  from "1.IH" [OF refl refl refl refl src refl ch] obtain ns where
    "nn = Inst (next_uid st) nm (construct_instance (kind_ClassName k)) tp' ns"
    and "map shape_of ns = map shape_of cs"
    by auto
  with p' show ?case
    by (intro exI [of _ nn]) (simp add: construct_instance_ClassName)
next
  case (2 lib q st)
  then show ?case by (blast dest: cloneChildren_Nil_shape)
next
  case (3 lib c cs p st)
  from "3.prems" obtain p1 st1 where c1: "cloneInstance lib c p st = Inr (p1, st1)"
    and c2: "cloneChildren lib cs p1 st1 = Inr (p', st')"
    by (rule cloneChildren_ConsE)
  from "3.IH"(1) [OF c1] obtain n where "p1 = append_child p n" and "shape_of n = shape_of c"
    by blast
  moreover from "3.IH"(2) [OF c1 refl c2] obtain ns where
    "p' = Inst (uid p1) (Name p1) (kind p1) (props p1) (Children p1 @ ns)"
    and "map shape_of ns = map shape_of cs"
    by blast
  ultimately show ?case by (intro exI [of _ "n # ns"]) (simp add: append_child_eq)
qed

lemma clone_total_aux:
  "lib_total lib \<Longrightarrow> \<exists>r. cloneInstance lib src p st = Inr r"
and cloneChildren_total_aux:
  "lib_total lib \<Longrightarrow> \<exists>r. cloneChildren lib cs p st = Inr r"
proof (induction lib src p st and lib cs p st rule: cloneInstance_cloneChildren.induct)
  case (1 lib u nm k ps cs p st)
  obtain tp' st2 where src: "cloneScriptSource lib (construct_instance (kind_ClassName k))
       (Inst u nm k ps cs) (clone_props lib (construct_instance (kind_ClassName k)) ps [])
       (st\<lparr>next_uid := Suc (next_uid st)\<rparr>) = Inr (tp', st2)"
    using cloneScriptSource_Inr [OF "1.prems"] by (metis surj_pair)
  from "1.IH" [OF refl refl refl refl src refl "1.prems"] obtain nn st3 where
    "cloneChildren lib cs (Inst (next_uid st) nm (construct_instance (kind_ClassName k)) tp' []) st2 =
       Inr (nn, st3)"
    by (metis surj_pair)
  with src show ?case by (simp add: Let_def)
next
  case 2
  then show ?case by simp
next
  case (3 lib c cs p st)
  from "3.IH"(1) [OF "3.prems"] obtain p1 st1 where c1: "cloneInstance lib c p st = Inr (p1, st1)"
    by (metis surj_pair)
  from "3.IH"(2) [OF c1 refl "3.prems"] obtain r where "cloneChildren lib cs p1 st1 = Inr r"
    by blast
  with c1 show ?case by simp
qed

subsection \<open>Property maps of a clone\<close>

lemma props_ok_update:
  "props_ok b \<Longrightarrow> key \<noteq> ''UniqueId'' \<Longrightarrow> props_ok (AList.update key v b)"
  by (auto simp: props_ok_def distinct_update)

lemma props_ok_SetProp:
  assumes "lib_keys_ok lib" and "SetProp lib k key t r b = Some (x, b')"
    and "props_ok b" and "key \<noteq> ''UniqueId''"
  shows "props_ok b'"
  using SetProp_keys [OF assms(1,2)] assms(3,4) by (auto simp: props_ok_def)

lemma clone_props_ok:
  "lib_keys_ok lib \<Longrightarrow> props_ok tgt \<Longrightarrow> props_ok (clone_props lib k ps tgt)"
proof (induction lib k ps tgt rule: clone_props.induct)
  case (1 lib k tgt)
  then show ?case by simp
next
  case (2 lib k key v ps tgt)
  then show ?case
    by (auto simp: props_ok_update split: pvalue.split option.split dest: props_ok_SetProp)
qed

lemma cloneScriptSource_props_ok:
  "lib_keys_ok lib \<Longrightarrow> props_ok b \<Longrightarrow> cloneScriptSource lib k src b st = Inr (b', st') \<Longrightarrow>
     props_ok b'"
  by (auto simp: cloneScriptSource_def Let_def split: if_splits option.splits
           dest: props_ok_SetProp)

lemma clone_props_ok_aux:
  "lib_keys_ok lib \<Longrightarrow> cloneInstance lib src p st = Inr (p', st') \<Longrightarrow>
     \<exists>n. p' = append_child p n \<and> (\<forall>m \<in> set (nodes n). props_ok (props m))"
and cloneChildren_props_ok_aux:
  "lib_keys_ok lib \<Longrightarrow> cloneChildren lib cs p st = Inr (p', st') \<Longrightarrow>
     \<exists>ns. p' = Inst (uid p) (Name p) (kind p) (props p) (Children p @ ns) \<and>
          (\<forall>n \<in> set ns. \<forall>m \<in> set (nodes n). props_ok (props m))"
proof (induction lib src p st and lib cs p st arbitrary: p' st' and p' st'
       rule: cloneInstance_cloneChildren.induct)
  case (1 lib u nm k ps cs p st)
  define k' where "k' = construct_instance (kind_ClassName k)"
  from "1.prems"(2) obtain tp' st2 nn where
      src: "cloneScriptSource lib k' (Inst u nm k ps cs) (clone_props lib k' ps [])
              (st\<lparr>next_uid := Suc (next_uid st)\<rparr>) = Inr (tp', st2)"
    and ch: "cloneChildren lib cs (Inst (next_uid st) nm k' tp' []) st2 = Inr (nn, st')"
    and p': "p' = append_child p nn"
    unfolding k'_def by (rule cloneInstance_InrE)
  have "props_ok (clone_props lib k' ps [])"
    by (rule clone_props_ok [OF "1.prems"(1)]) (simp add: props_ok_def)
  with src "1.prems"(1) have ok: "props_ok tp'"
    by (blast intro: cloneScriptSource_props_ok)
  from "1.IH" [OF k'_def refl refl refl src refl "1.prems"(1) ch]
  obtain ns where nn: "nn = Inst (next_uid st) nm k' tp' ns"
    and all: "\<forall>n \<in> set ns. \<forall>m \<in> set (nodes n). props_ok (props m)"
    by auto
  have "\<forall>m \<in> set (nodes nn). props_ok (props m)"
    using nn all ok by (auto simp: nodes_list_conv)
  with p' show ?case by blast
next
  case (2 lib q st)
  then show ?case by (cases q) (auto intro!: exI [of _ "[]"])
next
  case (3 lib c cs p st)
  from "3.prems"(2) obtain p1 st1 where c1: "cloneInstance lib c p st = Inr (p1, st1)"
    and c2: "cloneChildren lib cs p1 st1 = Inr (p', st')"
    by (rule cloneChildren_ConsE)
  from "3.IH"(1) [OF "3.prems"(1) c1] obtain n where "p1 = append_child p n"
    and "\<forall>m \<in> set (nodes n). props_ok (props m)"
    by blast
  moreover from "3.IH"(2) [OF c1 refl "3.prems"(1) c2] obtain ns where
    "p' = Inst (uid p1) (Name p1) (kind p1) (props p1) (Children p1 @ ns)"
    and "\<forall>n \<in> set ns. \<forall>m \<in> set (nodes n). props_ok (props m)"
    by blast
  ultimately show ?case by (intro exI [of _ "n # ns"]) (simp add: append_child_eq)
qed

subsection \<open>The property copy against its reference\<close>

lemma clone_props_Instance_SetProp_step:
  "clone_props Instance_SetProp k ((key, v) # ps) tgt =
     (if clone_keeps k (key, v) then clone_props Instance_SetProp k ps (AList.update key v tgt)
      else clone_props Instance_SetProp k ps tgt)"
  by (auto simp: clone_keeps_def SetProp_Instance_SetProp split: pvalue.split)

lemma clone_props_Instance_SetProp:
  "distinct (map fst ps) \<Longrightarrow> set (map fst ps) \<inter> fst ` set tgt = {} \<Longrightarrow>
   clone_props Instance_SetProp k ps tgt = tgt @ filter (clone_keeps k) ps"
proof (induction ps arbitrary: tgt)
  case Nil
  then show ?case by simp
next
  case (Cons kv ps)
  obtain key v where kv: "kv = (key, v)" by fastforce
  with Cons.prems have key: "key \<notin> fst ` set tgt" and fresh: "key \<notin> fst ` set ps" by auto
  have disj: "set (map fst ps) \<inter> fst ` set tgt = {}" using Cons.prems(2) by auto
  with fresh have disj': "set (map fst ps) \<inter> fst ` set (tgt @ [(key, v)]) = {}" by auto
  from Cons.prems(1) have "distinct (map fst ps)" by simp
  note IH = Cons.IH [OF this]
  show ?case
    using IH [OF disj] IH [OF disj'] key
    by (simp add: kv clone_props_Instance_SetProp_step update_fresh del: clone_props.simps)
qed

lemma clone_ex_Part1:
  "cloneInstance Instance_SetProp ex_Part1 ex_Workspace ex_st0 =
     Inr (Inst 0 ''Workspace'' (LibInstance ''Workspace'') []
           [Inst 100 ''Part1'' (LibInstance ''Model'') [(''Color'', PTyped ''Color3'' RObject)] []],
          \<lparr>scriptSourceCache = Map.empty, next_uid = 101\<rparr>)"
  by (simp add: model_defs)

subsection \<open>The script-source cache is transparent\<close>

lemma run_agree_bind:
  assumes "run_agree N r1 r2"
    and "\<And>a s1 s2. r1 = Inr (a, s1) \<Longrightarrow> same_run N s1 s2 \<Longrightarrow> run_agree N (f a s1) (f a s2)"
  shows "run_agree N (case r1 of Inl e \<Rightarrow> Inl e | Inr (a, s) \<Rightarrow> f a s)
                     (case r2 of Inl e \<Rightarrow> Inl e | Inr (a, s) \<Rightarrow> f a s)"
proof (cases r1)
  case (Inl e)
  with assms(1) show ?thesis by (simp add: run_agree_def)
next
  case (Inr x)
  then obtain a s1 where r1: "r1 = Inr (a, s1)" by (cases x) auto
  with assms(1) obtain s2 where r2: "r2 = Inr (a, s2)" and sr: "same_run N s1 s2"
    by (auto simp: run_agree_def)
  from assms(2) [OF r1 sr] r1 r2 show ?thesis by simp
qed

lemma run_agree_Inr: "same_run N s1 s2 \<Longrightarrow> run_agree N (Inr (a, s1)) (Inr (a, s2))"
  by (simp add: run_agree_def)

lemma cache_consistent_update:
  assumes "cache_consistent N st" and "m \<in> set N" and "inj_on uid (set N)" and "Source m = Some s"
  shows "cache_consistent N (st\<lparr>scriptSourceCache := (scriptSourceCache st)(uid m \<mapsto> s)\<rparr>)"
  using assms by (auto simp: cache_consistent_def dest: inj_onD)

lemma cache_consistent_next_uid [simp]:
  "cache_consistent N (st\<lparr>next_uid := n\<rparr>) \<longleftrightarrow> cache_consistent N st"
  by (simp add: cache_consistent_def)

lemma cache_lookup:
  "cache_consistent N st \<Longrightarrow> m \<in> set N \<Longrightarrow> is_cached_script_class (ClassName m) \<Longrightarrow>
   scriptSourceCache st (uid m) = None \<or> scriptSourceCache st (uid m) = Source m"
  by (simp add: cache_consistent_def)

lemma cache_consistent_keep:
  assumes "cache_consistent N st" and "m \<in> set N" and "inj_on uid (set N)" and "Source m = Some s"
    and "st' = st \<or> st' = st\<lparr>scriptSourceCache := (scriptSourceCache st)(uid m \<mapsto> s)\<rparr>"
  shows "cache_consistent N st' \<and> next_uid st' = next_uid st"
  using assms(5)
proof
  assume "st' = st"
  with assms(1) show ?thesis by simp
next
  assume "st' = st\<lparr>scriptSourceCache := (scriptSourceCache st)(uid m \<mapsto> s)\<rparr>"
  with cache_consistent_update [OF assms(1-4)] show ?thesis by simp
qed

lemma cloneScriptSource_cached:
  assumes "cache_consistent N st" and "m \<in> set N" and "is_cached_script_class (ClassName m)"
    and "Source m = Some s"
  obtains st' where "st' = st \<or> st' = st\<lparr>scriptSourceCache := (scriptSourceCache st)(uid m \<mapsto> s)\<rparr>"
    and "cloneScriptSource lib k m bag st =
           (case SetProp lib k ''Source'' DataType_String (RText s) bag of
              None \<Rightarrow> Inl (SetPropThrew ''Source'')
            | Some (_, bag') \<Rightarrow> Inr (bag', st'))"
proof -
  from cache_lookup [OF assms(1-3)] assms(4)
  consider "scriptSourceCache st (uid m) = None" | "scriptSourceCache st (uid m) = Some s" by auto
  then show ?thesis
  proof cases
    case 1
    with assms(3,4) that [of "st\<lparr>scriptSourceCache := (scriptSourceCache st)(uid m \<mapsto> s)\<rparr>"]
    show ?thesis by (simp add: cloneScriptSource_def Let_def)
  next
    case 2
    with assms(3) that [of st] show ?thesis by (simp add: cloneScriptSource_def)
  qed
qed

lemma cloneScriptSource_agree:
  assumes sr: "same_run N st1 st2" and m: "m \<in> set N" and inj: "inj_on uid (set N)"
  shows "run_agree N (cloneScriptSource lib k m bag st1) (cloneScriptSource lib k m bag st2)"
proof (cases "is_cached_script_class (ClassName m)")
  case False
  with sr show ?thesis by (simp add: cloneScriptSource_def run_agree_def)
next
  case True
  have c1: "cache_consistent N st1" and c2: "cache_consistent N st2"
    using sr by (simp_all add: same_run_def)
  show ?thesis
  proof (cases "Source m")
    case None
    with cache_lookup [OF c1 m True] cache_lookup [OF c2 m True] True sr show ?thesis
      by (simp add: cloneScriptSource_def run_agree_def)
  next
    case (Some s)
    have keep: "same_run N sa' sb'"
      if "same_run N sa sb" "sa' = sa \<or> sa' = sa\<lparr>scriptSourceCache := (scriptSourceCache sa)(uid m \<mapsto> s)\<rparr>"
         "sb' = sb \<or> sb' = sb\<lparr>scriptSourceCache := (scriptSourceCache sb)(uid m \<mapsto> s)\<rparr>" for sa sb sa' sb'
    proof -
      from that(1) have "cache_consistent N sa" "cache_consistent N sb" "next_uid sa = next_uid sb"
        by (simp_all add: same_run_def)
      with cache_consistent_keep [OF _ m inj Some that(2)] cache_consistent_keep [OF _ m inj Some that(3)]
      show ?thesis by (simp add: same_run_def)
    qed
    obtain st1' where u1: "st1' = st1 \<or> st1' = st1\<lparr>scriptSourceCache := (scriptSourceCache st1)(uid m \<mapsto> s)\<rparr>"
      and e1: "cloneScriptSource lib k m bag st1 =
           (case SetProp lib k ''Source'' DataType_String (RText s) bag of
              None \<Rightarrow> Inl (SetPropThrew ''Source'') | Some (_, bag') \<Rightarrow> Inr (bag', st1'))"
      by (rule cloneScriptSource_cached [OF c1 m True Some])
    obtain st2' where u2: "st2' = st2 \<or> st2' = st2\<lparr>scriptSourceCache := (scriptSourceCache st2)(uid m \<mapsto> s)\<rparr>"
      and e2: "cloneScriptSource lib k m bag st2 =
           (case SetProp lib k ''Source'' DataType_String (RText s) bag of
              None \<Rightarrow> Inl (SetPropThrew ''Source'') | Some (_, bag') \<Rightarrow> Inr (bag', st2'))"
      by (rule cloneScriptSource_cached [OF c2 m True Some])
    from keep [OF sr u1 u2] show ?thesis
      by (simp add: e1 e2 run_agree_def split: option.split)
  qed
qed

lemma cloneInstance_unfold:
  "cloneInstance lib (Inst u nm k ps cs) p st =
     (case cloneScriptSource lib (construct_instance (kind_ClassName k)) (Inst u nm k ps cs)
             (clone_props lib (construct_instance (kind_ClassName k)) ps []) (st\<lparr>next_uid := Suc (next_uid st)\<rparr>) of
        Inl e \<Rightarrow> Inl e
      | Inr (tp, st2) \<Rightarrow>
          (case cloneChildren lib cs (Inst (next_uid st) nm (construct_instance (kind_ClassName k)) tp []) st2 of
             Inl e \<Rightarrow> Inl e
           | Inr (n, st3) \<Rightarrow> Inr (append_child p n, st3)))"
  by (simp add: Let_def)

lemma clone_cache_agree:
  "same_run N st1 st2 \<Longrightarrow> set (nodes t) \<subseteq> set N \<Longrightarrow> inj_on uid (set N) \<Longrightarrow>
   run_agree N (cloneInstance lib t p st1) (cloneInstance lib t p st2)"
and cloneChildren_cache_agree:
  "same_run N st1 st2 \<Longrightarrow> set (nodes_list cs) \<subseteq> set N \<Longrightarrow> inj_on uid (set N) \<Longrightarrow>
   run_agree N (cloneChildren lib cs p st1) (cloneChildren lib cs p st2)"
proof (induction lib t p st1 and lib cs p st1 arbitrary: st2 and st2
       rule: cloneInstance_cloneChildren.induct)
  case (1 lib u nm k ps cs p st st2)
  let ?k = "construct_instance (kind_ClassName k)"
  let ?m = "Inst u nm k ps cs"
  let ?bag = "clone_props lib ?k ps []"
  let ?f = "\<lambda>tp s. case cloneChildren lib cs (Inst (next_uid st) nm ?k tp []) s of
               Inl e \<Rightarrow> Inl e | Inr (n, st3) \<Rightarrow> Inr (append_child p n, st3)"
  have n: "next_uid st2 = next_uid st" using "1.prems"(1) by (simp add: same_run_def)
  have sr: "same_run N (st\<lparr>next_uid := Suc (next_uid st)\<rparr>) (st2\<lparr>next_uid := Suc (next_uid st2)\<rparr>)"
    using "1.prems"(1) n by (simp add: same_run_def)
  have cs: "set (nodes_list cs) \<subseteq> set N" using "1.prems"(2) by simp
  have src: "run_agree N (cloneScriptSource lib ?k ?m ?bag (st\<lparr>next_uid := Suc (next_uid st)\<rparr>))
                         (cloneScriptSource lib ?k ?m ?bag (st2\<lparr>next_uid := Suc (next_uid st2)\<rparr>))"
    using cloneScriptSource_agree [OF sr _ "1.prems"(3)] "1.prems"(2) by simp
  have "run_agree N
          (case cloneScriptSource lib ?k ?m ?bag (st\<lparr>next_uid := Suc (next_uid st)\<rparr>) of
             Inl e \<Rightarrow> Inl e | Inr (a, s) \<Rightarrow> ?f a s)
          (case cloneScriptSource lib ?k ?m ?bag (st2\<lparr>next_uid := Suc (next_uid st2)\<rparr>) of
             Inl e \<Rightarrow> Inl e | Inr (a, s) \<Rightarrow> ?f a s)"
  proof (rule run_agree_bind [OF src])
    fix a s1 s2
    assume r1: "cloneScriptSource lib ?k ?m ?bag (st\<lparr>next_uid := Suc (next_uid st)\<rparr>) = Inr (a, s1)"
      and sr': "same_run N s1 s2"
    from "1.IH" [OF refl refl refl refl r1 refl sr' cs "1.prems"(3)]
    have "run_agree N (cloneChildren lib cs (Inst (next_uid st) nm ?k a []) s1)
                      (cloneChildren lib cs (Inst (next_uid st) nm ?k a []) s2)" .
    then show "run_agree N (?f a s1) (?f a s2)"
      by (rule run_agree_bind) (simp add: run_agree_Inr)
  qed
  then show ?case by (simp only: cloneInstance_unfold n)
next
  case (2 lib p st st2)
  then show ?case by (simp add: run_agree_Inr)
next
  case (3 lib c cs p st st2)
  have c: "set (nodes c) \<subseteq> set N" and cs: "set (nodes_list cs) \<subseteq> set N"
    using "3.prems"(2) by auto
  have "run_agree N (case cloneInstance lib c p st of Inl e \<Rightarrow> Inl e | Inr (a, s) \<Rightarrow> cloneChildren lib cs a s)
                    (case cloneInstance lib c p st2 of Inl e \<Rightarrow> Inl e | Inr (a, s) \<Rightarrow> cloneChildren lib cs a s)"
  proof (rule run_agree_bind [OF "3.IH"(1) [OF "3.prems"(1) c "3.prems"(3)]])
    fix a s1 s2
    assume r1: "cloneInstance lib c p st = Inr (a, s1)" and sr': "same_run N s1 s2"
    show "run_agree N (cloneChildren lib cs a s1) (cloneChildren lib cs a s2)"
      by (rule "3.IH"(2) [OF r1 refl sr' cs "3.prems"(3)])
  qed
  then show ?case by simp
qed

lemma cacheScriptSources_consistent:
  "cache_consistent N st \<Longrightarrow> set (nodes t) \<subseteq> set N \<Longrightarrow> inj_on uid (set N) \<Longrightarrow>
   cache_consistent N (cacheScriptSources t st) \<and> next_uid (cacheScriptSources t st) = next_uid st"
proof (induction t arbitrary: st rule: inst.induct)
  case (Inst u nm k ps cs)
  let ?m = "Inst u nm k ps cs"
  have list: "cache_consistent N (cacheScriptSources_list xs s) \<and>
              next_uid (cacheScriptSources_list xs s) = next_uid s"
    if "cache_consistent N s" "set (nodes_list xs) \<subseteq> set N" "set xs \<subseteq> set cs" for xs s
    using that
  proof (induction xs arbitrary: s)
    case Nil
    then show ?case by simp
  next
    case (Cons c xs)
    from Inst.IH [of c s] Cons.prems Inst.prems(3)
    have "cache_consistent N (cacheScriptSources c s) \<and> next_uid (cacheScriptSources c s) = next_uid s"
      by simp
    with Cons.IH [of "cacheScriptSources c s"] Cons.prems show ?case by simp
  qed
  let ?st1 = "if is_cached_script_class (kind_ClassName k) then
                (case Source ?m of
                   Some s \<Rightarrow> st\<lparr>scriptSourceCache := (scriptSourceCache st)(u \<mapsto> s)\<rparr>
                 | None \<Rightarrow> st)
              else st"
  have m: "?m \<in> set N" using Inst.prems(2) by simp
  have "cache_consistent N ?st1 \<and> next_uid ?st1 = next_uid st"
    using cache_consistent_update [OF Inst.prems(1) m Inst.prems(3)] Inst.prems(1)
    by (auto split: option.split)
  with list [of ?st1 cs] Inst.prems(2) show ?case by simp
qed

lemma cacheScriptSources_list_consistent:
  "cache_consistent N st \<Longrightarrow> set (nodes_list cs) \<subseteq> set N \<Longrightarrow> inj_on uid (set N) \<Longrightarrow>
   cache_consistent N (cacheScriptSources_list cs st) \<and> next_uid (cacheScriptSources_list cs st) = next_uid st"
proof (induction cs arbitrary: st)
  case Nil
  then show ?case by simp
next
  case (Cons c cs)
  with cacheScriptSources_consistent [of N st c] show ?case by simp
qed

lemma run_agree_map_sum:
  "run_agree N r1 r2 \<Longrightarrow> map_sum id fst r1 = map_sum id fst r2"
  by (auto simp: run_agree_def split: sum.splits prod.splits)

subsection \<open>Properties of cloneInstance\<close>

text \<open>
  C1: structure preservation.  A clone that returns appends one new node to the target
  parent, and that node has the source's \<open>Name\<close>, \<open>ClassName\<close> and children, in
  order, all the way down.
\<close>

theorem clone_preserves_structure:
  assumes "cloneInstance lib src parent st = Inr (parent', st')"
  shows "\<exists>n. parent' = append_child parent n \<and> shape_of n = shape_of src"
  using clone_shape_aux [OF assms] .

theorem clone_preserves_structure_witness:
  "\<exists>parent' st'. cloneInstance Instance_SetProp ex_Part1 ex_Workspace ex_st0 = Inr (parent', st') \<and>
     (\<exists>n. parent' = append_child ex_Workspace n \<and> shape_of n = shape_of ex_Part1)"
  using clone_preserves_structure [OF clone_ex_Part1] clone_ex_Part1 by blast

text \<open>
  C2: no node of a clone carries a \<open>UniqueId\<close> property, and every cloned property map
  has one entry per key, for any library \<open>SetProp\<close> that writes only the key it is given.
\<close>

theorem clone_strips_UniqueId:
  assumes "lib_keys_ok lib" and "cloneInstance lib src parent st = Inr (parent', st')"
  shows "\<exists>n. parent' = append_child parent n \<and>
           (\<forall>m \<in> set (nodes n). ''UniqueId'' \<notin> fst ` set (props m) \<and> distinct (map fst (props m)))"
  using clone_props_ok_aux [OF assms] by (auto simp: props_ok_def)

theorem clone_strips_UniqueId_witness:
  "lib_keys_ok Instance_SetProp \<and>
   (\<exists>parent' st'. cloneInstance Instance_SetProp ex_Part1 ex_Workspace ex_st0 = Inr (parent', st') \<and>
     (\<exists>n. parent' = append_child ex_Workspace n \<and>
       (\<forall>m \<in> set (nodes n). ''UniqueId'' \<notin> fst ` set (props m) \<and> distinct (map fst (props m)))))"
  using clone_strips_UniqueId [OF lib_keys_ok_Instance_SetProp clone_ex_Part1]
    clone_ex_Part1 lib_keys_ok_Instance_SetProp by blast

text \<open>
  C6: with the library storing every value, the property map of the new node is the
  source map filtered by \<open>clone_keeps\<close>, in the source's order: \<open>UniqueId\<close>, large
  \<open>BinaryString\<close> payloads, untyped entries and entries the node's \<open>SetProp\<close> refuses
  are dropped, every other entry is copied unchanged.
\<close>

theorem clone_props_spec:
  assumes "distinct (map fst ps)"
  shows "clone_props Instance_SetProp k ps [] = filter (clone_keeps k) ps"
  using clone_props_Instance_SetProp [OF assms] by simp

theorem clone_props_spec_witness:
  "distinct (map fst [(''UniqueId'', PTyped ''UniqueId'' (RText ''x'')), (''Color'', PTyped ''Color3'' RObject)]) \<and>
   clone_props Instance_SetProp (LibInstance ''Model'')
     [(''UniqueId'', PTyped ''UniqueId'' (RText ''x'')), (''Color'', PTyped ''Color3'' RObject)] [] =
   [(''Color'', PTyped ''Color3'' RObject)]"
  using clone_props_spec [of "[(''UniqueId'', PTyped ''UniqueId'' (RText ''x'')), (''Color'', PTyped ''Color3'' RObject)]"
      "LibInstance ''Model''"]
  by (simp add: model_defs)

text \<open>
  C18: a \<open>BinaryString\<close> entry whose payload is longer than 1000000 is skipped by the
  property copy, whatever the library; a payload of exactly 1000000 bytes is not: it is
  handed to \<open>SetProp\<close>, with the raw fallback if that throws.
\<close>

theorem clone_skips_large_BinaryString:
  assumes "longer_than r 1000000"
  shows "clone_props lib k ((key, PTyped ''BinaryString'' r) # ps) tgt = clone_props lib k ps tgt \<and>
         clone_props lib k ((''Blob'', PTyped ''BinaryString'' (RBuffer (replicate 1000000 b))) # ps) tgt =
           (case SetProp lib k ''Blob'' ''BinaryString'' (RBuffer (replicate 1000000 b)) tgt of
              Some (_, tgt') \<Rightarrow> clone_props lib k ps tgt'
            | None \<Rightarrow> clone_props lib k ps
                        (AList.update ''Blob'' (PTyped ''BinaryString'' (RBuffer (replicate 1000000 b))) tgt))"
  using assms by (simp add: is_large_BinaryString_def longer_than_def)

theorem clone_skips_large_BinaryString_witness:
  "longer_than (RBuffer (replicate 1000001 0)) 1000000 \<and>
   clone_props Instance_SetProp (LibInstance ''Model'')
     [(''Blob'', PTyped ''BinaryString'' (RBuffer (replicate 1000001 0)))] [] = []"
  using clone_skips_large_BinaryString [of "RBuffer (replicate 1000001 0)" Instance_SetProp
      "LibInstance ''Model''" "''Blob''" "[]" "[]"]
  by (simp add: longer_than_def)

text \<open>
  C9: a \<open>String\<close> property longer than 500000 on a \<open>GenericInstance\<close> is lost by the
  copy, whatever the library does: \<open>SetProp\<close> returns \<open>false\<close> rather than throwing,
  so the direct-assignment fallback of the \<open>catch\<close> branch never runs.
\<close>

theorem clone_loses_rejected_String:
  assumes "longer_than (RText s) 500000" and "key \<noteq> ''UniqueId''"
  shows "clone_props lib (GenericInstance c True) [(key, PTyped ''String'' (RText s))] [] = []"
  using assms by (simp add: is_large_BinaryString_def GenericInstance_SetProp_def)

theorem clone_loses_rejected_String_witness:
  "longer_than (RText (replicate 500001 CHR ''a'')) 500000 \<and> ''Notes'' \<noteq> ''UniqueId'' \<and>
   clone_props Instance_SetProp (GenericInstance ''Tool'' True)
     [(''Notes'', PTyped ''String'' (RText (replicate 500001 CHR ''a'')))] [] = []"
  using clone_loses_rejected_String [of "replicate 500001 CHR ''a''" "''Notes''" Instance_SetProp
      "''Tool''"]
  by (simp add: longer_than_def)

end
