(* ===== verification/Validate.thy ===== *)
theory Validate
  imports Model
begin

text \<open>
  The structural validator \<open>validateInstance\<close> of \<open>src/bridge.ts\<close> (lines 95--119).
  The \<open>errors\<close> array it pushes to is a list of diagnostics, each rendered to the
  source's message text by \<open>diag_message\<close>; the boolean it returns is the verdict.
  The recursion threads the array through the children in order and never stops
  early.  A pre-order reference (\<open>tree_diags\<close>, \<open>tree_null_free\<close>) describes the result
  independently of the accumulator.
\<close>

datatype diag =
    WarnUniqueId string
  | ErrNullProperty string string

definition diag_message :: "diag \<Rightarrow> string" where
  "diag_message d =
     (case d of
        WarnUniqueId path \<Rightarrow> ''[WARN] Found UniqueId at '' @ path
      | ErrNullProperty propName path \<Rightarrow>
          ''[ERROR] Null/undefined property '' @ propName @ '' at '' @ path)"

definition is_error_diag :: "diag \<Rightarrow> bool" where
  "is_error_diag d = (case d of ErrNullProperty _ _ \<Rightarrow> True | WarnUniqueId _ \<Rightarrow> False)"

text \<open>\<open>path ? `${path}.${instance.Name}` : instance.Name\<close>: the empty string is falsy.\<close>

definition child_path :: "string \<Rightarrow> string \<Rightarrow> string" where
  "child_path path name = (if path = [] then name else path @ ''.'' @ name)"

definition is_nullish :: "pvalue \<Rightarrow> bool" where
  "is_nullish v \<longleftrightarrow> v = PUndefined \<or> v = PNull"

fun check_props :: "bag \<Rightarrow> string \<Rightarrow> bool \<Rightarrow> diag list \<Rightarrow> bool \<times> diag list" where
  "check_props [] currentPath isValid errors = (isValid, errors)"
| "check_props ((propName, propValue) # ps) currentPath isValid errors =
     (let errors1 = (if propName = ''UniqueId'' then errors @ [WarnUniqueId currentPath] else errors)
      in if is_nullish propValue
         then check_props ps currentPath False (errors1 @ [ErrNullProperty propName currentPath])
         else check_props ps currentPath isValid errors1)"

fun validateInstance :: "inst \<Rightarrow> diag list \<Rightarrow> string \<Rightarrow> bool \<times> diag list"
  and validateChildren :: "inst list \<Rightarrow> diag list \<Rightarrow> string \<Rightarrow> bool \<Rightarrow> bool \<times> diag list"
where
  "validateInstance (Inst u nm k ps cs) errors path =
     (let currentPath = child_path path nm;
          (isValid, errors') = check_props ps currentPath True errors
      in validateChildren cs errors' currentPath isValid)"
| "validateChildren [] errors currentPath isValid = (isValid, errors)"
| "validateChildren (c # cs) errors currentPath isValid =
     (case validateInstance c errors currentPath of
        (childValid, errors') \<Rightarrow> validateChildren cs errors' currentPath (childValid \<and> isValid))"

subsection \<open>Reference\<close>

definition prop_diags :: "bag \<Rightarrow> string \<Rightarrow> diag list" where
  "prop_diags ps path =
     concat (map (\<lambda>(k, v). (if k = ''UniqueId'' then [WarnUniqueId path] else []) @
                           (if is_nullish v then [ErrNullProperty k path] else [])) ps)"

fun tree_diags :: "inst \<Rightarrow> string \<Rightarrow> diag list"
  and tree_diags_list :: "inst list \<Rightarrow> string \<Rightarrow> diag list" where
  "tree_diags (Inst u nm k ps cs) path =
     prop_diags ps (child_path path nm) @ tree_diags_list cs (child_path path nm)"
| "tree_diags_list [] path = []"
| "tree_diags_list (c # cs) path = tree_diags c path @ tree_diags_list cs path"

definition null_free :: "bag \<Rightarrow> bool" where
  "null_free ps \<longleftrightarrow> list_all (\<lambda>(k, v). \<not> is_nullish v) ps"

definition count_nullish :: "bag \<Rightarrow> nat" where
  "count_nullish ps = length (filter (\<lambda>(k, v). is_nullish v) ps)"

definition count_UniqueId :: "bag \<Rightarrow> nat" where
  "count_UniqueId ps = length (filter (\<lambda>(k, v). k = ''UniqueId'') ps)"

text \<open>Every node of every root listed has no \<open>null\<close> or \<open>undefined\<close> property.\<close>

definition roots_valid :: "inst list \<Rightarrow> bool" where
  "roots_valid rs \<longleftrightarrow> (\<forall>r \<in> set rs. \<forall>m \<in> set (nodes r). null_free (props m))"

text \<open>
  The inverse of \<open>child_path\<close>: split a dotted path at every \<open>.\<close>
  (\<open>String.prototype.split(".")\<close>).
\<close>

fun split_dots :: "string \<Rightarrow> string list" where
  "split_dots [] = [[]]"
| "split_dots (c # cs) =
     (if c = CHR ''.'' then [] # split_dots cs
      else (case split_dots cs of [] \<Rightarrow> [[c]] | w # ws \<Rightarrow> (c # w) # ws))"

declare diag_message_def [model_defs] is_error_diag_def [model_defs] child_path_def [model_defs]
  is_nullish_def [model_defs]

subsection \<open>The accumulator against the reference\<close>

lemma check_props_ref:
  "check_props ps cur ok errs = (ok \<and> null_free ps, errs @ prop_diags ps cur)"
  by (induction ps cur ok errs rule: check_props.induct)
     (auto simp: prop_diags_def null_free_def Let_def)

lemma validate_ref:
  "validateInstance t errs path =
     (list_all (\<lambda>m. null_free (props m)) (nodes t), errs @ tree_diags t path)"
and validateChildren_ref:
  "validateChildren cs errs cur ok =
     (ok \<and> list_all (\<lambda>m. null_free (props m)) (nodes_list cs), errs @ tree_diags_list cs cur)"
proof (induction t errs path and cs errs cur ok rule: validateInstance_validateChildren.induct)
  case (1 u nm k ps cs errors path)
  then show ?case by (simp add: check_props_ref Let_def)
next
  case (2 errors currentPath isValid)
  then show ?case by simp
next
  case (3 c cs errors currentPath isValid)
  then show ?case by (auto split: prod.split)
qed

lemma prop_diags_errors: "length (filter is_error_diag (prop_diags ps p)) = count_nullish ps"
  by (induction ps) (auto simp: prop_diags_def count_nullish_def is_error_diag_def)

lemma prop_diags_warnings:
  "length (filter (\<lambda>d. \<not> is_error_diag d) (prop_diags ps p)) = count_UniqueId ps"
  by (induction ps) (auto simp: prop_diags_def count_UniqueId_def is_error_diag_def)

lemma tree_diags_counts:
  "length (filter is_error_diag (tree_diags t p)) = sum_list (map (count_nullish \<circ> props) (nodes t)) \<and>
   length (filter (\<lambda>d. \<not> is_error_diag d) (tree_diags t p)) = sum_list (map (count_UniqueId \<circ> props) (nodes t))"
and tree_diags_list_counts:
  "length (filter is_error_diag (tree_diags_list cs p)) = sum_list (map (count_nullish \<circ> props) (nodes_list cs)) \<and>
   length (filter (\<lambda>d. \<not> is_error_diag d) (tree_diags_list cs p)) = sum_list (map (count_UniqueId \<circ> props) (nodes_list cs))"
  by (induction t p and cs p rule: tree_diags_tree_diags_list.induct)
     (simp_all add: prop_diags_errors prop_diags_warnings)

lemma null_free_count: "null_free ps \<longleftrightarrow> count_nullish ps = 0"
  by (induction ps) (auto simp: null_free_def count_nullish_def)

lemma tree_null_free_count:
  "list_all (\<lambda>m. null_free (props m)) ns \<longleftrightarrow> sum_list (map (count_nullish \<circ> props) ns) = 0"
  by (induction ns) (auto simp: null_free_count)

lemma roots_valid_append [simp]: "roots_valid (xs @ ys) \<longleftrightarrow> roots_valid xs \<and> roots_valid ys"
  by (auto simp: roots_valid_def)

lemma roots_valid_Nil [simp]: "roots_valid []"
  by (simp add: roots_valid_def)

lemma roots_valid_single:
  "roots_valid [r] \<longleftrightarrow> fst (validateInstance r errs path)"
  by (simp add: roots_valid_def validate_ref list_all_iff)

lemma split_dots_ne: "split_dots s \<noteq> []"
  by (induction s) (auto split: list.split)

lemma split_dots_no_dot: "CHR ''.'' \<notin> set s \<Longrightarrow> split_dots s = [s]"
  by (induction s) auto

lemma split_dots_append_dot: "split_dots (xs @ CHR ''.'' # ys) = split_dots xs @ split_dots ys"
proof (induction xs)
  case Nil
  then show ?case by simp
next
  case (Cons c xs)
  obtain w ws where "split_dots xs = w # ws" using split_dots_ne [of xs] by (cases "split_dots xs") auto
  with Cons show ?case by simp
qed

lemma split_dots_route:
  "p \<noteq> [] \<Longrightarrow> \<forall>n \<in> set ns. n \<noteq> [] \<and> CHR ''.'' \<notin> set n \<Longrightarrow>
   split_dots (foldl child_path p ns) = split_dots p @ ns"
  by (induction ns arbitrary: p) (auto simp: child_path_def split_dots_append_dot split_dots_no_dot)

subsection \<open>Properties of validateInstance\<close>

text \<open>
  C5: the verdict of \<open>validateInstance\<close> is true exactly when no node of the tree has
  a \<open>null\<close> or \<open>undefined\<close> property, whatever the diagnostics already collected and
  whatever the path prefix.
\<close>

theorem validate_verdict:
  "fst (validateInstance t errs path) \<longleftrightarrow> (\<forall>m \<in> set (nodes t). null_free (props m))"
  by (simp add: validate_ref list_all_iff)

theorem validate_verdict_witness:
  "fst (validateInstance (Inst 0 ''Root'' (LibInstance ''Model'') [] [Inst 1 ''Child'' (LibInstance ''Part'') [(''X'', PNull)] []]) [] []) = False \<and>
   \<not> (\<forall>m \<in> set (nodes (Inst 0 ''Root'' (LibInstance ''Model'') [] [Inst 1 ''Child'' (LibInstance ''Part'') [(''X'', PNull)] []])). null_free (props m))"
  using validate_verdict [of "Inst 0 ''Root'' (LibInstance ''Model'') [] [Inst 1 ''Child'' (LibInstance ''Part'') [(''X'', PNull)] []]" "[]" "[]"]
  by (simp add: null_free_def is_nullish_def)

text \<open>
  C15: \<open>validateInstance\<close> only appends to the diagnostics it is given, and it appends
  one error per \<open>null\<close> or \<open>undefined\<close> property and one warning per \<open>UniqueId\<close>
  property of the whole tree: traversal never stops at the first invalid node.
\<close>

theorem validate_diagnostics:
  "\<exists>ds. snd (validateInstance t errs path) = errs @ ds \<and>
        length (filter is_error_diag ds) = sum_list (map (count_nullish \<circ> props) (nodes t)) \<and>
        length (filter (\<lambda>d. \<not> is_error_diag d) ds) = sum_list (map (count_UniqueId \<circ> props) (nodes t))"
  using tree_diags_counts [of t path] by (simp add: validate_ref)

text \<open>
  C16: the verdict agrees with the diagnostics: it is false exactly when the call added
  an error diagnostic.
\<close>

theorem validate_verdict_iff_no_error:
  "fst (validateInstance t errs path) \<longleftrightarrow>
     \<not> list_ex is_error_diag (drop (length errs) (snd (validateInstance t errs path)))"
proof -
  have "list_ex is_error_diag (tree_diags t path) \<longleftrightarrow> length (filter is_error_diag (tree_diags t path)) \<noteq> 0"
    by (simp add: list_ex_iff filter_empty_conv)
  then show ?thesis
    using tree_diags_counts [of t path] tree_null_free_count [of "nodes t"]
    by (simp add: validate_ref)
qed

text \<open>
  The specification's examples: under \<open>Root\<close>, a child with \<open>X = null\<close> gives
  verdict false and exactly one error, at path \<open>Root.Child\<close>; with a \<open>UniqueId\<close>
  instead, verdict true and exactly one warning.
\<close>

lemma validate_spec_examples:
  "validateInstance (Inst 0 ''Root'' k [] [Inst 1 ''Child'' k' [(''X'', PNull)] []]) [] [] =
     (False, [ErrNullProperty ''X'' ''Root.Child'']) \<and>
   diag_message (ErrNullProperty ''X'' ''Root.Child'') = ''[ERROR] Null/undefined property X at Root.Child'' \<and>
   validateInstance (Inst 0 ''Root'' k [] [Inst 1 ''Child'' k' [(''UniqueId'', PTyped ''String'' (RText ''abc''))] []]) [] [] =
     (True, [WarnUniqueId ''Root.Child''])"
  by (simp add: model_defs)

text \<open>
  C28: the path that \<open>validateInstance\<close> builds for a node, one \<open>child_path\<close> per
  level from the root, can be split back into the names on the route, provided the names
  are non-empty and contain no dot.  (An empty name is falsy and drops its segment; a
  dotted name makes the path ambiguous.)
\<close>

theorem child_path_roundtrip:
  assumes "names \<noteq> []" and "\<forall>n \<in> set names. n \<noteq> [] \<and> CHR ''.'' \<notin> set n"
  shows "split_dots (foldl child_path [] names) = names"
proof -
  obtain n ns where names: "names = n # ns" using assms(1) by (cases names) auto
  with assms(2) have "n \<noteq> []" "CHR ''.'' \<notin> set n" "\<forall>m \<in> set ns. m \<noteq> [] \<and> CHR ''.'' \<notin> set m"
    by auto
  then show ?thesis
    by (simp add: names child_path_def split_dots_route split_dots_no_dot)
qed

theorem child_path_roundtrip_witness:
  "foldl child_path [] [''Workspace'', ''Part1'', ''Handle''] = ''Workspace.Part1.Handle'' \<and>
   split_dots ''Workspace.Part1.Handle'' = [''Workspace'', ''Part1'', ''Handle'']"
proof -
  have h: "\<forall>n \<in> set [''Workspace'', ''Part1'', ''Handle'']. n \<noteq> [] \<and> CHR ''.'' \<notin> set n" by simp
  have p: "foldl child_path [] [''Workspace'', ''Part1'', ''Handle''] = ''Workspace.Part1.Handle''"
    by (simp add: child_path_def)
  show ?thesis using child_path_roundtrip [OF _ h] p by simp
qed

lemma child_path_empty_root: "foldl child_path [] ['''', ''Child''] = ''Child''"
  by (simp add: child_path_def)

end
