(* ===== verification/Remove.thy ===== *)
theory Remove
  imports Model
begin

text \<open>
  The removal pass \<open>removeInstances\<close> of \<open>src/bridge.ts\<close> (lines 175--186).  The loop
  runs over a snapshot of the children, so destroying one child does not disturb the
  iteration: a child whose \<open>Name\<close> is in the list is destroyed with its whole subtree
  (\<open>Destroy\<close> detaches it from the parent), any other child is searched recursively.
  The root itself is never tested.
\<close>

fun removeInstances :: "string list \<Rightarrow> inst \<Rightarrow> inst"
  and removeChildren :: "string list \<Rightarrow> inst list \<Rightarrow> inst list" where
  "removeInstances namesToRemove (Inst u nm k ps cs) = Inst u nm k ps (removeChildren namesToRemove cs)"
| "removeChildren namesToRemove [] = []"
| "removeChildren namesToRemove (child # children) =
     (if Name child \<in> set namesToRemove then removeChildren namesToRemove children
      else removeInstances namesToRemove child # removeChildren namesToRemove children)"

text \<open>
  A reference for the pass: every node of a tree in pre-order, with the names of the
  nodes on its route below the root (its own name last; the root has the empty route).
\<close>

fun routes :: "inst \<Rightarrow> (string list \<times> inst) list" where
  "routes (Inst u nm k ps cs) =
     ([], Inst u nm k ps cs) # concat (map (\<lambda>c. map (\<lambda>(r, n). (Name c # r, n)) (routes c)) cs)"

lemma removeChildren_filter:
  "removeChildren ns cs = map (removeInstances ns) (filter (\<lambda>c. Name c \<notin> set ns) cs)"
  by (induction cs) auto

lemma removeInstances_sel [simp]:
  "uid (removeInstances ns t) = uid t" "Name (removeInstances ns t) = Name t"
  "kind (removeInstances ns t) = kind t" "props (removeInstances ns t) = props t"
  by (cases t; simp)+

lemma removeInstances_no_listed:
  "\<forall>m \<in> set (nodes_list (Children (removeInstances ns t))). Name m \<notin> set ns"
and removeChildren_no_listed:
  "\<forall>m \<in> set (nodes_list (removeChildren ns cs)). Name m \<notin> set ns"
proof (induction ns t and ns cs rule: removeInstances_removeChildren.induct)
  case (1 ns u nm k ps cs)
  then show ?case by simp
next
  case (2 ns)
  then show ?case by simp
next
  case (3 ns c cs)
  then show ?case by (cases c) auto
qed

lemma filter_route_prefix:
  "filter (\<lambda>a. list_all (\<lambda>x. x \<notin> set ns) (fst a)) (map (\<lambda>a. (b # fst a, snd a)) xs) =
     (if b \<in> set ns then []
      else map (\<lambda>a. (b # fst a, snd a)) (filter (\<lambda>a. list_all (\<lambda>x. x \<notin> set ns) (fst a)) xs))"
  by (induction xs) auto

lemma removeInstances_routes:
  "map (\<lambda>n. (uid n, Name n, kind n, props n)) (nodes (removeInstances ns t)) =
   map (\<lambda>(r, n). (uid n, Name n, kind n, props n))
     (filter (\<lambda>(r, n). list_all (\<lambda>x. x \<notin> set ns) r) (routes t))"
and removeChildren_routes:
  "map (\<lambda>n. (uid n, Name n, kind n, props n)) (nodes_list (removeChildren ns cs)) =
   map (\<lambda>(r, n). (uid n, Name n, kind n, props n))
     (filter (\<lambda>(r, n). list_all (\<lambda>x. x \<notin> set ns) r)
        (concat (map (\<lambda>c. map (\<lambda>(r, n). (Name c # r, n)) (routes c)) cs)))"
proof (induction ns t and ns cs rule: removeInstances_removeChildren.induct)
  case (1 ns u nm k ps cs)
  then show ?case by simp
next
  case (2 ns)
  then show ?case by simp
next
  case (3 ns c cs)
  then show ?case
    by (cases "Name c \<in> set ns") (simp_all add: filter_route_prefix case_prod_beta)
qed

subsection \<open>Properties of removeInstances\<close>

text \<open>
  C11: after the pass, no node below the root carries a listed name, and the root keeps
  its identity, name, class and properties.
\<close>

theorem remove_no_listed_descendant:
  "(\<forall>m \<in> set (nodes_list (Children (removeInstances ns t))). Name m \<notin> set ns) \<and>
   uid (removeInstances ns t) = uid t \<and> Name (removeInstances ns t) = Name t \<and>
   kind (removeInstances ns t) = kind t \<and> props (removeInstances ns t) = props t"
  using removeInstances_no_listed [of ns t] by simp

theorem remove_no_listed_descendant_witness:
  "map Name (nodes_list (Children (removeInstances [''A'']
      (Inst 0 ''Root'' (LibInstance ''Model'') [] [Inst 1 ''A'' (LibInstance ''Model'') [] [], Inst 2 ''B'' (LibInstance ''Model'') [] [Inst 3 ''A'' (LibInstance ''Model'') [] []]])))) = [''B''] \<and>
   Name (removeInstances [''A''] (Inst 0 ''Root'' (LibInstance ''Model'') [] [Inst 1 ''A'' (LibInstance ''Model'') [] [], Inst 2 ''B'' (LibInstance ''Model'') [] [Inst 3 ''A'' (LibInstance ''Model'') [] []]])) = ''Root''"
  using remove_no_listed_descendant [of "[''A'']" "Inst 0 ''Root'' (LibInstance ''Model'') [] [Inst 1 ''A'' (LibInstance ''Model'') [] [], Inst 2 ''B'' (LibInstance ''Model'') [] [Inst 3 ''A'' (LibInstance ''Model'') [] []]]"]
  by simp

text \<open>
  C12: the pass keeps exactly the nodes none of whose ancestors below the root, nor the
  node itself, carries a listed name: read in pre-order, the identities, names, classes
  and properties of the result are those of the input's nodes whose route passes no
  listed name.  So listed nodes go with their whole subtree, every other node stays, in
  order and unchanged, and the root is never tested.
\<close>

theorem remove_keeps_exactly:
  "map (\<lambda>n. (uid n, Name n, kind n, props n)) (nodes (removeInstances ns t)) =
   map (\<lambda>(r, n). (uid n, Name n, kind n, props n))
     (filter (\<lambda>(r, n). list_all (\<lambda>x. x \<notin> set ns) r) (routes t))"
  by (rule removeInstances_routes)

text \<open>
  The specification's examples of shallow removal: with \<open>Root \<rightarrow> A \<rightarrow> B\<close>, listing
  \<open>A\<close> removes \<open>A\<close> and \<open>B\<close> with it; listing \<open>B\<close> only leaves \<open>A\<close> without children.
\<close>

theorem remove_spec_examples:
  "removeInstances [''A''] (Inst 0 ''Root'' k [] [Inst 1 ''A'' k [] [Inst 2 ''B'' k [] []]]) =
     Inst 0 ''Root'' k [] [] \<and>
   removeInstances [''B''] (Inst 0 ''Root'' k [] [Inst 1 ''A'' k [] [Inst 2 ''B'' k [] []]]) =
     Inst 0 ''Root'' k [] [Inst 1 ''A'' k [] []]"
  by simp

end
