(* ===== verification/Sanitize.thy ===== *)
theory Sanitize
  imports Model
begin

text \<open>
  The sanitizer \<open>findAndRemoveSuspiciousScripts\<close> of \<open>src/bridge.ts\<close> (lines 188--213).
  For a node of class \<open>Script\<close> or \<open>LocalScript\<close> it lower-cases the source (\<open>''''\<close> when
  there is none), looks for the keywords in their fixed order, and on the first hit
  replaces the whole source by a placeholder and counts one; it then visits every child,
  adding up the counts.  The keyword loop with its \<open>break\<close> is \<open>first_match\<close>.
\<close>

definition SUSPICIOUS_KEYWORDS :: "string list" where
  "SUSPICIOUS_KEYWORDS =
     [''require'', ''getfenv'', ''loadstring'', ''_G'', ''setfenv'', ''webhook'', ''MarketplaceService'']"

definition removed_placeholder :: string where
  "removed_placeholder = ''-- This script's content was removed for security reasons.''"

definition is_sanitized_class :: "string \<Rightarrow> bool" where
  "is_sanitized_class c \<longleftrightarrow> c = ''Script'' \<or> c = ''LocalScript''"

text \<open>\<open>instance.Source || ""\<close>\<close>

definition source_or_empty :: "inst \<Rightarrow> string" where
  "source_or_empty n = (case Source n of Some s \<Rightarrow> s | None \<Rightarrow> [])"

fun first_match :: "string list \<Rightarrow> string \<Rightarrow> string option" where
  "first_match [] source = None"
| "first_match (keyword # keywords) source =
     (if js_includes (js_toLowerCase source) keyword then Some keyword
      else first_match keywords source)"

fun findAndRemoveSuspiciousScripts :: "inst \<Rightarrow> inst \<times> nat"
  and sanitizeChildren :: "inst list \<Rightarrow> inst list \<times> nat" where
  "findAndRemoveSuspiciousScripts (Inst u nm k ps cs) =
     (let (ps', removedCount) =
            (if is_sanitized_class (kind_ClassName k) then
               (case first_match SUSPICIOUS_KEYWORDS (source_or_empty (Inst u nm k ps cs)) of
                  Some keyword \<Rightarrow> (props (set_Source removed_placeholder (Inst u nm k ps cs)), 1)
                | None \<Rightarrow> (ps, 0))
             else (ps, 0));
          (cs', childCount) = sanitizeChildren cs
      in (Inst u nm k ps' cs', removedCount + childCount))"
| "sanitizeChildren [] = ([], 0)"
| "sanitizeChildren (child # children) =
     (let (child', n) = findAndRemoveSuspiciousScripts child;
          (children', m) = sanitizeChildren children
      in (child' # children', n + m))"

text \<open>A node the sanitizer rewrites.\<close>

definition flagged :: "inst \<Rightarrow> bool" where
  "flagged n \<longleftrightarrow> is_sanitized_class (ClassName n) \<and>
                 first_match SUSPICIOUS_KEYWORDS (source_or_empty n) \<noteq> None"

declare SUSPICIOUS_KEYWORDS_def [model_defs] removed_placeholder_def [model_defs]
  is_sanitized_class_def [model_defs] source_or_empty_def [model_defs] flagged_def [model_defs]

lemma flagged_Inst_props:
  "flagged (Inst u nm k ps cs) = flagged (Inst u' nm' k ps cs')"
  by (simp add: flagged_def source_or_empty_def Source_def)

lemma placeholder_clean: "first_match SUSPICIOUS_KEYWORDS removed_placeholder = None"
  by (simp add: model_defs js_simps)

lemma not_flagged_rewritten:
  "\<not> flagged (Inst u nm k (props (set_Source removed_placeholder (Inst u0 nm0 k ps cs0))) cs)"
proof -
  have "Source (Inst u nm k (props (set_Source removed_placeholder (Inst u0 nm0 k ps cs0))) cs) =
        Some removed_placeholder"
    by (simp add: Source_def set_Source_def)
  then show ?thesis by (simp add: flagged_def source_or_empty_def placeholder_clean)
qed

lemma sanitize_step:
  "findAndRemoveSuspiciousScripts (Inst u nm k ps cs) =
     (if flagged (Inst u nm k ps cs)
      then (Inst u nm k (props (set_Source removed_placeholder (Inst u nm k ps cs))) (fst (sanitizeChildren cs)),
            Suc (snd (sanitizeChildren cs)))
      else (Inst u nm k ps (fst (sanitizeChildren cs)), snd (sanitizeChildren cs)))"
proof (cases "flagged (Inst u nm k ps cs)")
  case True
  then obtain kw where "is_sanitized_class (kind_ClassName k)"
    and "first_match SUSPICIOUS_KEYWORDS (source_or_empty (Inst u nm k ps cs)) = Some kw"
    by (auto simp: flagged_def)
  with True show ?thesis by (simp add: case_prod_beta)
next
  case False
  then have "(if is_sanitized_class (kind_ClassName k) then
               (case first_match SUSPICIOUS_KEYWORDS (source_or_empty (Inst u nm k ps cs)) of
                  Some keyword \<Rightarrow> (props (set_Source removed_placeholder (Inst u nm k ps cs)), 1::nat)
                | None \<Rightarrow> (ps, 0))
             else (ps, 0)) = (ps, 0)"
    by (auto simp: flagged_def)
  with False show ?thesis by (simp add: case_prod_beta)
qed

lemma sanitize_facts:
  "shape_of (fst (findAndRemoveSuspiciousScripts t)) = shape_of t \<and>
   map uid (nodes (fst (findAndRemoveSuspiciousScripts t))) = map uid (nodes t) \<and>
   snd (findAndRemoveSuspiciousScripts t) = length (filter flagged (nodes t)) \<and>
   (\<forall>m \<in> set (nodes (fst (findAndRemoveSuspiciousScripts t))). \<not> flagged m)"
and sanitizeChildren_facts:
  "map shape_of (fst (sanitizeChildren cs)) = map shape_of cs \<and>
   map uid (nodes_list (fst (sanitizeChildren cs))) = map uid (nodes_list cs) \<and>
   snd (sanitizeChildren cs) = length (filter flagged (nodes_list cs)) \<and>
   (\<forall>m \<in> set (nodes_list (fst (sanitizeChildren cs))). \<not> flagged m)"
proof (induction t and cs rule: findAndRemoveSuspiciousScripts_sanitizeChildren.induct)
  case (1 u nm k ps cs)
  note IH = "1.IH" [OF refl prod.collapse]
  show ?case
  proof (cases "flagged (Inst u nm k ps cs)")
    case True
    with IH show ?thesis
      by (simp add: sanitize_step not_flagged_rewritten del: findAndRemoveSuspiciousScripts.simps(1))
  next
    case False
    then have "\<not> flagged (Inst u nm k ps (fst (sanitizeChildren cs)))"
      using flagged_Inst_props [of u nm k ps cs u nm "fst (sanitizeChildren cs)"] by simp
    with False IH show ?thesis
      by (simp add: sanitize_step del: findAndRemoveSuspiciousScripts.simps(1))
  qed
next
  case 2
  then show ?case by simp
next
  case (3 c cs)
  note IH2 = "3.IH"(2) [OF refl prod.collapse]
  with "3.IH"(1) show ?case by (auto simp: case_prod_beta)
qed

lemma sanitize_clean:
  "(\<forall>m \<in> set (nodes t). \<not> flagged m) \<Longrightarrow> findAndRemoveSuspiciousScripts t = (t, 0)"
and sanitizeChildren_clean:
  "(\<forall>m \<in> set (nodes_list cs). \<not> flagged m) \<Longrightarrow> sanitizeChildren cs = (cs, 0)"
proof (induction t and cs rule: findAndRemoveSuspiciousScripts_sanitizeChildren.induct)
  case (1 u nm k ps cs)
  note IH = "1.IH" [OF refl prod.collapse]
  from "1.prems" IH show ?case
    by (simp add: sanitize_step del: findAndRemoveSuspiciousScripts.simps(1))
next
  case 2
  then show ?case by simp
next
  case (3 c cs)
  note IH2 = "3.IH"(2) [OF refl prod.collapse]
  with "3.IH"(1) "3.prems" show ?case by simp
qed

lemma sanitize_props:
  "map props (nodes (fst (findAndRemoveSuspiciousScripts t))) =
   map (\<lambda>n. if flagged n then props (set_Source removed_placeholder n) else props n) (nodes t)"
and sanitizeChildren_props:
  "map props (nodes_list (fst (sanitizeChildren cs))) =
   map (\<lambda>n. if flagged n then props (set_Source removed_placeholder n) else props n) (nodes_list cs)"
proof (induction t and cs rule: findAndRemoveSuspiciousScripts_sanitizeChildren.induct)
  case (1 u nm k ps cs)
  note IH = "1.IH" [OF refl prod.collapse]
  with IH show ?case
    by (simp add: sanitize_step del: findAndRemoveSuspiciousScripts.simps(1))
next
  case 2
  then show ?case by simp
next
  case (3 c cs)
  note IH2 = "3.IH"(2) [OF refl prod.collapse]
  with "3.IH"(1) show ?case by (simp add: case_prod_beta)
qed

lemma is_ascii_upper_G: "is_ascii_upper CHR ''G''" and is_ascii_upper_M: "is_ascii_upper CHR ''M''"
  by (simp_all add: js_simps)

subsection \<open>Properties of findAndRemoveSuspiciousScripts\<close>

text \<open>
  C13: the count returned is the number of \<open>Script\<close>/\<open>LocalScript\<close> nodes of the
  whole tree whose lower-cased source contains a keyword.
\<close>

theorem sanitize_count:
  "snd (findAndRemoveSuspiciousScripts t) = length (filter flagged (nodes t))"
  using sanitize_facts [of t] by simp

text \<open>
  C14: one pass leaves nothing to rewrite: a second pass changes nothing and counts zero,
  because the placeholder contains no keyword.
\<close>

theorem sanitize_idempotent:
  "findAndRemoveSuspiciousScripts (fst (findAndRemoveSuspiciousScripts t)) =
     (fst (findAndRemoveSuspiciousScripts t), 0)"
  using sanitize_facts [of t] by (simp add: sanitize_clean)

text \<open>
  C20: the sanitizer keeps the tree: names, classes, child order and node identities are
  those of the input.
\<close>

theorem sanitize_preserves_structure:
  "shape_of (fst (findAndRemoveSuspiciousScripts t)) = shape_of t \<and>
   map uid (nodes (fst (findAndRemoveSuspiciousScripts t))) = map uid (nodes t)"
  using sanitize_facts [of t] by simp

text \<open>
  C21: read in pre-order, the properties of every node of the result are those of the
  corresponding input node, rewritten by the placeholder exactly when that node is
  flagged: the root and every descendant alike, and no other node is touched.
\<close>

theorem sanitize_rewrites_flagged:
  "map props (nodes (fst (findAndRemoveSuspiciousScripts t))) =
   map (\<lambda>n. if flagged n then props (set_Source removed_placeholder n) else props n) (nodes t)"
  by (rule sanitize_props)

text \<open>
  C7: the keywords \<open>_G\<close> and \<open>MarketplaceService\<close> are dead: the source is
  lower-cased before the search, and these two keywords contain upper-case letters, so the
  keyword search behaves exactly as if they were not in the list.
\<close>

theorem sanitize_dead_keywords:
  "first_match SUSPICIOUS_KEYWORDS s =
     first_match [''require'', ''getfenv'', ''loadstring'', ''setfenv'', ''webhook''] s"
proof -
  have "\<not> js_includes (js_toLowerCase s) ''_G''"
    by (rule js_includes_upper_lowered [OF _ is_ascii_upper_G]) simp
  moreover have "\<not> js_includes (js_toLowerCase s) ''MarketplaceService''"
    by (rule js_includes_upper_lowered [OF _ is_ascii_upper_M]) simp
  ultimately show ?thesis by (simp add: SUSPICIOUS_KEYWORDS_def)
qed

end
