(* ===== verification/Pipeline.thy ===== *)
theory Pipeline
  imports Clone Validate Remove Sanitize
begin

text \<open>
  The merge orchestrator of \<open>src/bridge.ts\<close>: \<open>injectInfection\<close> (lines 215--258) and
  \<open>RbxmBridge.processModel\<close> (lines 261--297).  The steps run in the code's order:
  strip the target's first root, sanitize it, validate every donor root (the first
  invalid one aborts before any cloning), clone the donor roots one after the other under
  the target's first root.  \<open>processModel\<close> reads both files, decodes them, fills the
  script-source cache from the donor roots, runs \<open>injectInfection\<close>, encodes the target
  and writes it.  The codec is an interface (\<open>codec\<close>): \<open>None\<close> is a decoder or encoder
  that throws.  The file system is a map from paths to contents; \<open>load_inputs\<close> and
  \<open>persist\<close> are the reading and the writing phases of \<open>processModel\<close>.  Besides the
  behaviour of both functions, the lemmas show that the script-source cache filled before
  the merge is transparent (\<open>cache_transparent\<close>).
\<close>

definition namesToRemove :: "string list" where
  "namesToRemove =
     [''qPerfectionweld'', ''Effectbuilder'', ''Manager'', ''Modulescript'', ''Controller'',
      ''zRelativeWeld'', ''MeshWeld'', ''AutoWeld'', ''weld'', ''InitWeld'', ''ObjectBuilder'',
      ''ZPartColorize0'', ''ObjectGroup'', ''ModelOptimizer'', ''ModelGrouper'', ''WConstraint'']"

text \<open>The validation loop: the shared \<open>errors\<close> array, and a throw at the first invalid root.\<close>

fun validateRoots :: "inst list \<Rightarrow> diag list \<Rightarrow> diag list + diag list" where
  "validateRoots [] errors = Inr errors"
| "validateRoots (root # roots) errors =
     (case validateInstance root errors [] of
        (True, errors') \<Rightarrow> validateRoots roots errors'
      | (False, errors') \<Rightarrow> Inl errors')"

text \<open>
  The cloning loop of lines 241--257 clones each donor root under \<open>parentObject\<close> in order
  and rethrows the first failure: that is \<open>cloneChildren\<close> on the donor roots.
  \<open>originalFile.Roots[0]\<close> on an empty root list is \<open>undefined\<close>, and the first access
  to it (line 176) throws.
\<close>

definition injectInfection ::
  "lib_SetProp \<Rightarrow> inst list \<Rightarrow> inst list \<Rightarrow> rt_state \<Rightarrow> error + (inst list \<times> rt_state)" where
  "injectInfection lib roots infectionRoots st =
     (case roots of
        [] \<Rightarrow> Inl NoTargetRoot
      | parentObject # otherRoots \<Rightarrow>
          (let stripped = removeInstances namesToRemove parentObject;
               (sanitized, removedScripts) = findAndRemoveSuspiciousScripts stripped
           in case validateRoots infectionRoots [] of
                Inl errors \<Rightarrow> Inl InvalidInfectionStructure
              | Inr errors \<Rightarrow>
                  (case cloneChildren lib infectionRoots sanitized st of
                     Inl e \<Rightarrow> Inl e
                   | Inr (parentObject', st') \<Rightarrow> Inr (parentObject' # otherRoots, st'))))"

record codec =
  ReadFromBuffer :: "bytes \<Rightarrow> inst list option"
  WriteToBuffer :: "inst list \<Rightarrow> bytes option"

type_synonym file_system = "string \<rightharpoonup> bytes"

text \<open>
  Lines 263--280 of \<open>processModel\<close>: read and decode the model file, reject an empty
  one, then read and decode the donor file and reject an empty one, in that order.
\<close>

definition load_inputs ::
  "codec \<Rightarrow> file_system \<Rightarrow> string \<Rightarrow> string \<Rightarrow> error + (inst list \<times> inst list)" where
  "load_inputs cd fs modelPath infectionPath =
     (case fs modelPath of
        None \<Rightarrow> Inl (ReadFailed modelPath)
      | Some modelBuffer \<Rightarrow>
     (case ReadFromBuffer cd modelBuffer of
        None \<Rightarrow> Inl DecodeFailed
      | Some [] \<Rightarrow> Inl InvalidOrEmptyModel
      | Some roots \<Rightarrow>
     (case fs infectionPath of
        None \<Rightarrow> Inl (ReadFailed infectionPath)
      | Some infectionBuffer \<Rightarrow>
     (case ReadFromBuffer cd infectionBuffer of
        None \<Rightarrow> Inl DecodeFailed
      | Some [] \<Rightarrow> Inl InvalidOrEmptyInfection
      | Some infectionRoots \<Rightarrow> Inr (roots, infectionRoots)))))"

text \<open>Lines 282--291: encode the merged target, reject an empty encoding, write it.\<close>

definition persist ::
  "codec \<Rightarrow> file_system \<Rightarrow> string \<Rightarrow> inst list \<Rightarrow> error + file_system" where
  "persist cd fs outputPath roots =
     (case WriteToBuffer cd roots of
        None \<Rightarrow> Inl SerializeFailed
      | Some [] \<Rightarrow> Inl SerializeFailed
      | Some modifiedBuffer \<Rightarrow> Inr (fs(outputPath \<mapsto> modifiedBuffer)))"

definition processModel ::
  "lib_SetProp \<Rightarrow> codec \<Rightarrow> file_system \<Rightarrow> string \<Rightarrow> string \<Rightarrow> string \<Rightarrow> rt_state \<Rightarrow>
     error + (file_system \<times> rt_state)" where
  "processModel lib cd fs modelPath infectionPath outputPath st =
     (case load_inputs cd fs modelPath infectionPath of
        Inl e \<Rightarrow> Inl e
      | Inr (roots, infectionRoots) \<Rightarrow>
          (let st1 = cacheScriptSources_list infectionRoots st
           in case injectInfection lib roots infectionRoots st1 of
                Inl e \<Rightarrow> Inl e
              | Inr (roots', st2) \<Rightarrow>
                  (case persist cd fs outputPath roots' of
                     Inl e \<Rightarrow> Inl e
                   | Inr fs' \<Rightarrow> Inr (fs', st2))))"

text \<open>A codec for the examples: the model file decodes to \<open>Workspace\<close>, any other to \<open>Part1\<close>.\<close>

abbreviation ex_codec :: codec where
  "ex_codec \<equiv> \<lparr>ReadFromBuffer = \<lambda>b. if b = [1] then Some [ex_Workspace] else Some [ex_Part1],
               WriteToBuffer = \<lambda>_. Some [7]\<rparr>"

declare namesToRemove_def [model_defs] injectInfection_def [model_defs] processModel_def [model_defs]
  load_inputs_def [model_defs] persist_def [model_defs]

lemma validateRoots_ConsE:
  assumes "validateRoots (r # rs) errs = res"
  obtains errs' where "validateInstance r errs [] = (True, errs')" "validateRoots rs errs' = res"
    | errs' where "validateInstance r errs [] = (False, errs')" "res = Inl errs'"
proof -
  obtain ok errs' where v: "validateInstance r errs [] = (ok, errs')" by fastforce
  show ?thesis
  proof (cases ok)
    case True
    with v assms that(1) show ?thesis by simp
  next
    case False
    with v assms that(2) show ?thesis by simp
  qed
qed

lemma validateRoots_Inr:
  "validateRoots rs errs = Inr errs' \<Longrightarrow> \<forall>r \<in> set rs. \<forall>m \<in> set (nodes r). null_free (props m)"
proof (induction rs arbitrary: errs)
  case Nil
  then show ?case by simp
next
  case (Cons r rs)
  from Cons.prems show ?case
  proof (cases rule: validateRoots_ConsE)
    case (1 errs'')
    then have "\<forall>m \<in> set (nodes r). null_free (props m)"
      by (simp add: validate_ref list_all_iff)
    with 1 Cons.IH show ?thesis by simp
  next
    case (2 errs'')
    then show ?thesis by simp
  qed
qed

lemma validateRoots_Inl:
  "\<exists>r \<in> set rs. \<exists>m \<in> set (nodes r). \<not> null_free (props m) \<Longrightarrow> \<exists>errs'. validateRoots rs errs = Inl errs'"
proof (induction rs arbitrary: errs)
  case Nil
  then show ?case by simp
next
  case (Cons r rs)
  obtain res where res: "validateRoots (r # rs) errs = res" by simp
  then show ?case
  proof (cases rule: validateRoots_ConsE)
    case (1 errs'')
    then have "\<forall>m \<in> set (nodes r). null_free (props m)"
      by (simp add: validate_ref list_all_iff)
    with Cons.prems have "\<exists>r \<in> set rs. \<exists>m \<in> set (nodes r). \<not> null_free (props m)" by auto
    from Cons.IH [OF this, of errs''] 1 res show ?thesis by simp
  next
    case (2 errs'')
    with res show ?thesis by simp
  qed
qed

lemma validateRoots_valid:
  "roots_valid rs \<Longrightarrow> \<exists>errs'. validateRoots rs errs = Inr errs'"
proof (induction rs arbitrary: errs)
  case Nil
  then show ?case by simp
next
  case (Cons r rs)
  then have "fst (validateInstance r errs [])" and "roots_valid rs"
    by (simp_all add: roots_valid_def validate_ref list_all_iff)
  moreover obtain errs'' where "validateInstance r errs [] = (True, errs'')"
    using calculation(1) by (metis prod.collapse)
  ultimately show ?case using Cons.IH by simp
qed

lemma cloneChildren_appends:
  "cloneChildren lib cs p st = Inr (p', st') \<Longrightarrow>
     \<exists>ns. p' = Inst (uid p) (Name p) (kind p) (props p) (Children p @ ns) \<and>
          map shape_of ns = map shape_of cs"
  by (rule cloneChildren_shape_aux)

lemma injectInfection_Inr_valid:
  "injectInfection lib roots iroots st = Inr r \<Longrightarrow>
     \<forall>x \<in> set iroots. \<forall>m \<in> set (nodes x). null_free (props m)"
  by (cases roots)
     (auto simp: injectInfection_def case_prod_beta split: sum.splits dest: validateRoots_Inr)

lemma injectInfection_Cons:
  "injectInfection lib (p # ps) iroots st =
     (case validateRoots iroots [] of
        Inl errors \<Rightarrow> Inl InvalidInfectionStructure
      | Inr errors \<Rightarrow>
          (case cloneChildren lib iroots (fst (findAndRemoveSuspiciousScripts (removeInstances namesToRemove p))) st of
             Inl e \<Rightarrow> Inl e
           | Inr (p', st') \<Rightarrow> Inr (p' # ps, st')))"
  by (simp add: injectInfection_def case_prod_beta)

lemma load_inputs_Inr:
  "load_inputs cd fs mp ip = Inr (roots, iroots) \<Longrightarrow> roots \<noteq> [] \<and> iroots \<noteq> []"
  by (auto simp: load_inputs_def split: option.splits list.splits)

lemma processModel_load:
  "load_inputs cd fs mp ip = Inr (roots, iroots) \<Longrightarrow>
   processModel lib cd fs mp ip op st =
     (case injectInfection lib roots iroots (cacheScriptSources_list iroots st) of
        Inl e \<Rightarrow> Inl e
      | Inr (roots', st2) \<Rightarrow> (case persist cd fs op roots' of Inl e \<Rightarrow> Inl e | Inr fs' \<Rightarrow> Inr (fs', st2)))"
  by (simp add: processModel_def)

subsection \<open>Properties of injectInfection\<close>

text \<open>
  C3: fail-fast validation.  If any donor root contains a node with a \<open>null\<close> or
  \<open>undefined\<close> property, \<open>injectInfection\<close> throws \<open>Invalid infection structure\<close>
  and clones nothing.
\<close>

theorem inject_fail_fast:
  assumes "roots \<noteq> []"
    and "\<exists>r \<in> set infectionRoots. \<exists>m \<in> set (nodes r). \<not> null_free (props m)"
  shows "injectInfection lib roots infectionRoots st = Inl InvalidInfectionStructure"
proof -
  obtain p ps where roots: "roots = p # ps" using assms(1) by (cases roots) auto
  obtain errs where "validateRoots infectionRoots [] = Inl errs"
    using validateRoots_Inl [OF assms(2)] by blast
  then show ?thesis by (simp add: injectInfection_def roots case_prod_beta)
qed

theorem inject_fail_fast_witness:
  "[Inst 0 ''Workspace'' (LibInstance ''Workspace'') [] []] \<noteq> [] \<and>
   (\<exists>r \<in> set [Inst 1 ''Bad'' (LibInstance ''Model'') [(''X'', PNull)] []].
      \<exists>m \<in> set (nodes r). \<not> null_free (props m)) \<and>
   injectInfection Instance_SetProp [Inst 0 ''Workspace'' (LibInstance ''Workspace'') [] []]
     [Inst 1 ''Bad'' (LibInstance ''Model'') [(''X'', PNull)] []] ex_st0 = Inl InvalidInfectionStructure"
proof -
  have h: "\<exists>r \<in> set [Inst 1 ''Bad'' (LibInstance ''Model'') [(''X'', PNull)] []].
             \<exists>m \<in> set (nodes r). \<not> null_free (props m)"
    by (simp add: null_free_def is_nullish_def)
  show ?thesis
    using h inject_fail_fast [OF _ h, of "[Inst 0 ''Workspace'' (LibInstance ''Workspace'') [] []]"
        Instance_SetProp ex_st0]
    by simp
qed

text \<open>
  C4: a successful \<open>injectInfection\<close> validated every donor root, and its result is the
  target's first root, stripped and sanitized, with one new child per donor root appended
  in order, each of the shape of its donor; the other target roots are unchanged.
\<close>

theorem inject_success:
  assumes "injectInfection lib roots infectionRoots st = Inr (roots', st')"
  shows "\<exists>p ps ns. roots = p # ps \<and>
           (\<forall>r \<in> set infectionRoots. \<forall>m \<in> set (nodes r). null_free (props m)) \<and>
           (let q = fst (findAndRemoveSuspiciousScripts (removeInstances namesToRemove p))
            in roots' = Inst (uid q) (Name q) (kind q) (props q) (Children q @ ns) # ps) \<and>
           map shape_of ns = map shape_of infectionRoots"
proof -
  obtain p ps where roots: "roots = p # ps"
    using assms by (cases roots) (auto simp: injectInfection_def)
  define q where "q = fst (findAndRemoveSuspiciousScripts (removeInstances namesToRemove p))"
  from assms obtain errs p' where
      v: "validateRoots infectionRoots [] = Inr errs"
    and c: "cloneChildren lib infectionRoots q st = Inr (p', st')"
    and r: "roots' = p' # ps"
    by (auto simp: injectInfection_def roots q_def case_prod_beta split: sum.splits prod.splits)
  from cloneChildren_appends [OF c] obtain ns where
    "p' = Inst (uid q) (Name q) (kind q) (props q) (Children q @ ns)"
    and "map shape_of ns = map shape_of infectionRoots" by blast
  with roots r validateRoots_Inr [OF v] show ?thesis
    unfolding q_def by (auto simp: Let_def)
qed

theorem inject_success_witness:
  "\<exists>roots' st'. injectInfection Instance_SetProp [ex_Workspace] [ex_Part1] ex_st0 = Inr (roots', st') \<and>
     (\<exists>p ps ns. [ex_Workspace] = p # ps \<and>
           (\<forall>r \<in> set [ex_Part1]. \<forall>m \<in> set (nodes r). null_free (props m)) \<and>
           (let q = fst (findAndRemoveSuspiciousScripts (removeInstances namesToRemove p))
            in roots' = Inst (uid q) (Name q) (kind q) (props q) (Children q @ ns) # ps) \<and>
           map shape_of ns = map shape_of [ex_Part1])"
proof -
  have run: "injectInfection Instance_SetProp [ex_Workspace] [ex_Part1] ex_st0 =
     Inr ([Inst 0 ''Workspace'' (LibInstance ''Workspace'') []
            [Inst 100 ''Part1'' (LibInstance ''Model'') [(''Color'', PTyped ''Color3'' RObject)] []]],
          \<lparr>scriptSourceCache = Map.empty, next_uid = 101\<rparr>)"
    by (simp add: model_defs js_simps)
  show ?thesis using inject_success [OF run] run by blast
qed

text \<open>
  The specification's end-to-end example: the donor root \<open>Part1\<close> (class
  \<open>Model\<close>, properties \<open>UniqueId\<close> and \<open>Color\<close>, no children) merged into the target
  root \<open>Workspace\<close> becomes the only child of \<open>Workspace\<close>, with \<open>Color\<close> and without
  \<open>UniqueId\<close>.
\<close>

lemma inject_spec_example:
  "injectInfection Instance_SetProp [ex_Workspace] [ex_Part1] ex_st0 =
     Inr ([Inst 0 ''Workspace'' (LibInstance ''Workspace'') []
            [Inst 100 ''Part1'' (LibInstance ''Model'') [(''Color'', PTyped ''Color3'' RObject)] []]],
          \<lparr>scriptSourceCache = Map.empty, next_uid = 101\<rparr>)"
  by (simp add: model_defs js_simps)

text \<open>
  C8: the sanitizer runs on the target, not on the donors.  A valid donor root of class
  \<open>Script\<close> with source \<open>s\<close>, any \<open>s\<close> whatever keywords it holds, is merged as the
  last child of the target's first root with exactly that source, stored under the tag
  \<open>String\<close> by the script-source step whatever its original tag, when the cache agrees
  with the donor (as the cache filled by \<open>processModel\<close> does).
\<close>

theorem inject_keeps_donor_script_source:
  assumes "roots_valid [Inst u nm (LibInstance ''Script'') ps cs]"
    and "Source (Inst u nm (LibInstance ''Script'') ps cs) = Some s"
    and "cache_consistent [Inst u nm (LibInstance ''Script'') ps cs] st"
  shows "\<exists>q st'. injectInfection Instance_SetProp (p # qs) [Inst u nm (LibInstance ''Script'') ps cs] st =
                   Inr (q # qs, st') \<and>
                 Name (last (Children q)) = nm \<and>
                 map_of (props (last (Children q))) ''Source'' = Some (PTyped ''String'' (RText s))"
proof -
  let ?r = "Inst u nm (LibInstance ''Script'') ps cs"
  let ?k = "LibInstance ''Script''"
  let ?q0 = "fst (findAndRemoveSuspiciousScripts (removeInstances namesToRemove p))"
  let ?st1 = "st\<lparr>next_uid := Suc (next_uid st)\<rparr>"
  let ?bag = "clone_props Instance_SetProp ?k ps []"
  let ?bag' = "AList.update ''Source'' (PTyped ''String'' (RText s)) ?bag"
  have k: "construct_instance (kind_ClassName ?k) = ?k"
    by (simp add: construct_instance_cases instanceConstructors_def)
  obtain errs where v: "validateRoots [?r] [] = Inr errs"
    using validateRoots_valid [OF assms(1)] by blast
  have c1: "cache_consistent [?r] ?st1" using assms(3) by simp
  have mN: "?r \<in> set [?r]" by simp
  have cls: "is_cached_script_class (ClassName ?r)" by (simp add: is_cached_script_class_def)
  obtain st2 where "st2 = ?st1 \<or> st2 = ?st1\<lparr>scriptSourceCache := (scriptSourceCache ?st1)(uid ?r \<mapsto> s)\<rparr>"
    and sc0: "cloneScriptSource Instance_SetProp ?k ?r ?bag ?st1 =
           (case SetProp Instance_SetProp ?k ''Source'' DataType_String (RText s) ?bag of
              None \<Rightarrow> Inl (SetPropThrew ''Source'') | Some (_, bag') \<Rightarrow> Inr (bag', st2))"
    by (rule cloneScriptSource_cached [OF c1 mN cls assms(2)])
  then have sc: "cloneScriptSource Instance_SetProp ?k ?r ?bag ?st1 = Inr (?bag', st2)"
    by (simp add: Instance_SetProp_def DataType_String_def)
  obtain nn st3 where ch: "cloneChildren Instance_SetProp cs (Inst (next_uid st) nm ?k ?bag' []) st2 = Inr (nn, st3)"
    using cloneChildren_total_aux [OF lib_total_Instance_SetProp] by (metis surj_pair)
  from cloneChildren_shape_aux [OF ch] obtain ns where nn: "nn = Inst (next_uid st) nm ?k ?bag' ns"
    by auto
  have "cloneInstance Instance_SetProp ?r ?q0 st = Inr (append_child ?q0 nn, st3)"
    using sc ch by (simp only: cloneInstance_unfold k) simp
  then have "injectInfection Instance_SetProp (p # qs) [?r] st = Inr (append_child ?q0 nn # qs, st3)"
    using v by (simp add: injectInfection_Cons)
  moreover have "Name (last (Children (append_child ?q0 nn))) = nm \<and>
      map_of (props (last (Children (append_child ?q0 nn)))) ''Source'' = Some (PTyped ''String'' (RText s))"
    by (simp add: append_child_eq nn)
  ultimately show ?thesis by blast
qed

theorem inject_keeps_donor_script_source_witness:
  "roots_valid [Inst 1 ''Evil'' (LibInstance ''Script'') [(''Source'', PTyped ''ProtectedString'' (RText ''loadstring(x)()''))] []] \<and>
   Source (Inst 1 ''Evil'' (LibInstance ''Script'') [(''Source'', PTyped ''ProtectedString'' (RText ''loadstring(x)()''))] []) =
     Some ''loadstring(x)()'' \<and>
   cache_consistent [Inst 1 ''Evil'' (LibInstance ''Script'') [(''Source'', PTyped ''ProtectedString'' (RText ''loadstring(x)()''))] []] ex_st0 \<and>
   flagged (Inst 1 ''Evil'' (LibInstance ''Script'') [(''Source'', PTyped ''ProtectedString'' (RText ''loadstring(x)()''))] []) \<and>
   (\<exists>q st'. injectInfection Instance_SetProp [ex_Workspace]
        [Inst 1 ''Evil'' (LibInstance ''Script'') [(''Source'', PTyped ''ProtectedString'' (RText ''loadstring(x)()''))] []] ex_st0 =
        Inr ([q], st') \<and>
      Name (last (Children q)) = ''Evil'' \<and>
      map_of (props (last (Children q))) ''Source'' = Some (PTyped ''String'' (RText ''loadstring(x)()'')))"
proof -
  have h1: "roots_valid [Inst 1 ''Evil'' (LibInstance ''Script'') [(''Source'', PTyped ''ProtectedString'' (RText ''loadstring(x)()''))] []]"
    by (simp add: roots_valid_def null_free_def is_nullish_def)
  have h2: "Source (Inst 1 ''Evil'' (LibInstance ''Script'') [(''Source'', PTyped ''ProtectedString'' (RText ''loadstring(x)()''))] []) =
     Some ''loadstring(x)()''"
    by (simp add: Source_def)
  have h3: "cache_consistent [Inst 1 ''Evil'' (LibInstance ''Script'') [(''Source'', PTyped ''ProtectedString'' (RText ''loadstring(x)()''))] []] ex_st0"
    by (simp add: cache_consistent_def)
  have h4: "flagged (Inst 1 ''Evil'' (LibInstance ''Script'') [(''Source'', PTyped ''ProtectedString'' (RText ''loadstring(x)()''))] [])"
    by (simp add: model_defs js_simps Source_def)
  show ?thesis using inject_keeps_donor_script_source [OF h1 h2 h3, of ex_Workspace "[]"] h1 h2 h3 h4
    by simp
qed

text \<open>
  C10: the script-source cache is transparent.  If node identities are distinct in the
  donor roots and the cache agrees with their sources (as the empty cache of a fresh
  process does), then filling the cache first, as \<open>processModel\<close> does, changes
  neither the merged tree nor the error of \<open>injectInfection\<close>: the result is that
  of a run with an empty cache.
\<close>

theorem cache_transparent:
  assumes "inj_on uid (set (nodes_list infectionRoots))"
    and "cache_consistent (nodes_list infectionRoots) st"
  shows "map_sum id fst (injectInfection lib roots infectionRoots (cacheScriptSources_list infectionRoots st)) =
         map_sum id fst (injectInfection lib roots infectionRoots (st\<lparr>scriptSourceCache := Map.empty\<rparr>))"
proof (cases roots)
  case Nil
  then show ?thesis by (simp add: injectInfection_def)
next
  case (Cons p ps)
  let ?N = "nodes_list infectionRoots"
  let ?q = "fst (findAndRemoveSuspiciousScripts (removeInstances namesToRemove p))"
  have "same_run ?N (cacheScriptSources_list infectionRoots st) (st\<lparr>scriptSourceCache := Map.empty\<rparr>)"
    using cacheScriptSources_list_consistent [OF assms(2) subset_refl assms(1)]
    by (simp add: same_run_def cache_consistent_def)
  from cloneChildren_cache_agree [OF this subset_refl assms(1), of lib ?q]
  have "map_sum id fst (cloneChildren lib infectionRoots ?q (cacheScriptSources_list infectionRoots st)) =
        map_sum id fst (cloneChildren lib infectionRoots ?q (st\<lparr>scriptSourceCache := Map.empty\<rparr>))"
    by (rule run_agree_map_sum)
  then show ?thesis
    by (auto simp: Cons injectInfection_Cons split: sum.splits prod.splits)
qed

theorem cache_transparent_witness:
  "inj_on uid (set (nodes_list [Inst 1 ''Evil'' (LibInstance ''Script'') [(''Source'', PTyped ''String'' (RText ''print(1)''))] []])) \<and>
   cache_consistent (nodes_list [Inst 1 ''Evil'' (LibInstance ''Script'') [(''Source'', PTyped ''String'' (RText ''print(1)''))] []]) ex_st0 \<and>
   map_sum id fst (injectInfection Instance_SetProp [ex_Workspace]
       [Inst 1 ''Evil'' (LibInstance ''Script'') [(''Source'', PTyped ''String'' (RText ''print(1)''))] []]
       (cacheScriptSources_list [Inst 1 ''Evil'' (LibInstance ''Script'') [(''Source'', PTyped ''String'' (RText ''print(1)''))] []] ex_st0)) =
   map_sum id fst (injectInfection Instance_SetProp [ex_Workspace]
       [Inst 1 ''Evil'' (LibInstance ''Script'') [(''Source'', PTyped ''String'' (RText ''print(1)''))] []]
       (ex_st0\<lparr>scriptSourceCache := Map.empty\<rparr>))"
proof -
  have i: "inj_on uid (set (nodes_list [Inst 1 ''Evil'' (LibInstance ''Script'') [(''Source'', PTyped ''String'' (RText ''print(1)''))] []]))"
    by simp
  have c: "cache_consistent (nodes_list [Inst 1 ''Evil'' (LibInstance ''Script'') [(''Source'', PTyped ''String'' (RText ''print(1)''))] []]) ex_st0"
    by (simp add: cache_consistent_def)
  show ?thesis using cache_transparent [OF i c] i c by simp
qed

subsection \<open>Properties of processModel\<close>

text \<open>
  C23: error precedence.  A model file that decodes to no roots fails with
  \<open>Invalid or empty model file\<close> before the donor file is even read.
\<close>

theorem processModel_empty_model:
  assumes "fs modelPath = Some b" and "ReadFromBuffer cd b = Some []"
  shows "processModel lib cd fs modelPath infectionPath outputPath st = Inl InvalidOrEmptyModel"
  using assms by (simp add: processModel_def load_inputs_def)

theorem processModel_empty_model_witness:
  "[''model.rbxm'' \<mapsto> [1]] ''model.rbxm'' = Some [1 :: byte] \<and>
   ReadFromBuffer \<lparr>ReadFromBuffer = \<lambda>_. Some [], WriteToBuffer = \<lambda>_. None\<rparr> [1] = Some [] \<and>
   processModel Instance_SetProp \<lparr>ReadFromBuffer = \<lambda>_. Some [], WriteToBuffer = \<lambda>_. None\<rparr>
     [''model.rbxm'' \<mapsto> [1]] ''model.rbxm'' ''missing.rbxm'' ''out.rbxm'' ex_st0 = Inl InvalidOrEmptyModel"
  using processModel_empty_model [of "[''model.rbxm'' \<mapsto> [1]]" "''model.rbxm''" "[1]"
      "\<lparr>ReadFromBuffer = \<lambda>_. Some [], WriteToBuffer = \<lambda>_. None\<rparr>" Instance_SetProp "''missing.rbxm''"
      "''out.rbxm''" ex_st0]
  by simp

text \<open>
  C22: a run that succeeds decoded both files to non-empty root lists, validated every
  donor root, and changed the file system only by writing a non-empty encoding of the
  merged target at the output path.
\<close>

theorem processModel_success:
  assumes "processModel lib cd fs modelPath infectionPath outputPath st = Inr (fs', st')"
  shows "\<exists>mb ib roots iroots roots' out.
           fs modelPath = Some mb \<and> ReadFromBuffer cd mb = Some roots \<and> roots \<noteq> [] \<and>
           fs infectionPath = Some ib \<and> ReadFromBuffer cd ib = Some iroots \<and> iroots \<noteq> [] \<and>
           (\<forall>r \<in> set iroots. \<forall>m \<in> set (nodes r). null_free (props m)) \<and>
           WriteToBuffer cd roots' = Some out \<and> out \<noteq> [] \<and> fs' = fs(outputPath \<mapsto> out)"
proof -
  from assms obtain mb roots ib iroots roots' st2 out where
      m: "fs modelPath = Some mb" "ReadFromBuffer cd mb = Some roots" "roots \<noteq> []"
    and i: "fs infectionPath = Some ib" "ReadFromBuffer cd ib = Some iroots" "iroots \<noteq> []"
    and inj: "injectInfection lib roots iroots (cacheScriptSources_list iroots st) = Inr (roots', st2)"
    and w: "WriteToBuffer cd roots' = Some out" "out \<noteq> []" "fs' = fs(outputPath \<mapsto> out)"
    by (auto simp: processModel_def load_inputs_def persist_def Let_def
              split: option.splits list.splits sum.splits prod.splits)
  from injectInfection_Inr_valid [OF inj]
  have "\<forall>r \<in> set iroots. \<forall>m \<in> set (nodes r). null_free (props m)" .
  with m i w show ?thesis by blast
qed

lemma processModel_ex:
  "processModel Instance_SetProp ex_codec [''model.rbxm'' \<mapsto> [1], ''donor.rbxm'' \<mapsto> [2]]
     ''model.rbxm'' ''donor.rbxm'' ''out.rbxm'' ex_st0 =
   Inr ([''model.rbxm'' \<mapsto> [1], ''donor.rbxm'' \<mapsto> [2], ''out.rbxm'' \<mapsto> [7]],
        \<lparr>scriptSourceCache = Map.empty, next_uid = 101\<rparr>)"
  by (simp add: model_defs js_simps)

theorem processModel_success_witness:
  "\<exists>fs' st'. processModel Instance_SetProp ex_codec [''model.rbxm'' \<mapsto> [1], ''donor.rbxm'' \<mapsto> [2]]
     ''model.rbxm'' ''donor.rbxm'' ''out.rbxm'' ex_st0 = Inr (fs', st') \<and>
   (\<exists>mb ib roots iroots roots' out.
      [''model.rbxm'' \<mapsto> [1], ''donor.rbxm'' \<mapsto> [2]] ''model.rbxm'' = Some mb \<and>
      ReadFromBuffer ex_codec mb = Some roots \<and> roots \<noteq> [] \<and>
      [''model.rbxm'' \<mapsto> [1], ''donor.rbxm'' \<mapsto> [2]] ''donor.rbxm'' = Some ib \<and>
      ReadFromBuffer ex_codec ib = Some iroots \<and> iroots \<noteq> [] \<and>
      (\<forall>r \<in> set iroots. \<forall>m \<in> set (nodes r). null_free (props m)) \<and>
      WriteToBuffer ex_codec roots' = Some out \<and> out \<noteq> [] \<and>
      fs' = ([''model.rbxm'' \<mapsto> [1], ''donor.rbxm'' \<mapsto> [2]])(''out.rbxm'' \<mapsto> out))"
  using processModel_success [OF processModel_ex] processModel_ex by blast

end
