(* ===== verification/Orchestrator.thy ===== *)
theory Orchestrator
  imports Pipeline
begin

text \<open>
  The merge orchestrator as a small-step machine.  \<open>RbxmBridge.processModel\<close> with the
  \<open>injectInfection\<close> it calls (\<open>src/bridge.ts\<close>, lines 215--297) is a fixed sequence of
  phases: load both files and fill the script-source cache, strip the target's first root,
  sanitize it, validate the donor roots one at a time, clone them one at a time, encode
  and write the target.  Each phase is one rule of \<open>pipeline_step\<close>; a loop over the
  donor roots is one step per root, and a throw is a step to \<open>Failed\<close>.  The state records
  the values the code keeps in local variables across the phases.

  The lemmas show that the machine is deterministic, that every run ends (the step
  relation is well founded), that a reachable state that is not final can always step,
  that donor roots are all valid before the first is cloned, and that the final state
  reached from the initial one is exactly the result of \<open>processModel\<close>: the
  function is a faithful big-step reading of the phases.
\<close>

datatype phase =
    Loading
  | Stripping
  | Sanitizing
  | Validating "inst list"
  | Cloning "inst list"
  | Persisting
  | Succeeded
  | Failed error

record pipeline =
  phase :: phase
  files :: file_system
  targetRoots :: "inst list"
  donorRoots :: "inst list"
  diags :: "diag list"
  runtime :: rt_state

definition pipeline_init :: "file_system \<Rightarrow> rt_state \<Rightarrow> pipeline" where
  "pipeline_init fs st =
     \<lparr>phase = Loading, files = fs, targetRoots = [], donorRoots = [], diags = [], runtime = st\<rparr>"

inductive pipeline_step ::
  "lib_SetProp \<Rightarrow> codec \<Rightarrow> string \<Rightarrow> string \<Rightarrow> string \<Rightarrow> pipeline \<Rightarrow> pipeline \<Rightarrow> bool"
  for lib cd modelPath infectionPath outputPath
where
  load_fail:
    "phase s = Loading \<Longrightarrow> load_inputs cd (files s) modelPath infectionPath = Inl e \<Longrightarrow>
     pipeline_step lib cd modelPath infectionPath outputPath s (s\<lparr>phase := Failed e\<rparr>)"
| load_ok:
    "phase s = Loading \<Longrightarrow> load_inputs cd (files s) modelPath infectionPath = Inr (roots, iroots) \<Longrightarrow>
     pipeline_step lib cd modelPath infectionPath outputPath s
       (s\<lparr>phase := Stripping, targetRoots := roots, donorRoots := iroots,
          runtime := cacheScriptSources_list iroots (runtime s)\<rparr>)"
| strip_none:
    "phase s = Stripping \<Longrightarrow> targetRoots s = [] \<Longrightarrow>
     pipeline_step lib cd modelPath infectionPath outputPath s (s\<lparr>phase := Failed NoTargetRoot\<rparr>)"
| strip:
    "phase s = Stripping \<Longrightarrow> targetRoots s = p # ps \<Longrightarrow>
     pipeline_step lib cd modelPath infectionPath outputPath s
       (s\<lparr>phase := Sanitizing, targetRoots := removeInstances namesToRemove p # ps\<rparr>)"
| sanitize:
    "phase s = Sanitizing \<Longrightarrow> targetRoots s = p # ps \<Longrightarrow>
     pipeline_step lib cd modelPath infectionPath outputPath s
       (s\<lparr>phase := Validating (donorRoots s),
          targetRoots := fst (findAndRemoveSuspiciousScripts p) # ps\<rparr>)"
| validate_ok:
    "phase s = Validating (r # rs) \<Longrightarrow> validateInstance r (diags s) [] = (True, errs) \<Longrightarrow>
     pipeline_step lib cd modelPath infectionPath outputPath s
       (s\<lparr>phase := Validating rs, diags := errs\<rparr>)"
| validate_fail:
    "phase s = Validating (r # rs) \<Longrightarrow> validateInstance r (diags s) [] = (False, errs) \<Longrightarrow>
     pipeline_step lib cd modelPath infectionPath outputPath s
       (s\<lparr>phase := Failed InvalidInfectionStructure, diags := errs\<rparr>)"
| validate_done:
    "phase s = Validating [] \<Longrightarrow>
     pipeline_step lib cd modelPath infectionPath outputPath s (s\<lparr>phase := Cloning (donorRoots s)\<rparr>)"
| clone_ok:
    "phase s = Cloning (r # rs) \<Longrightarrow> targetRoots s = p # ps \<Longrightarrow>
     cloneInstance lib r p (runtime s) = Inr (p', st') \<Longrightarrow>
     pipeline_step lib cd modelPath infectionPath outputPath s
       (s\<lparr>phase := Cloning rs, targetRoots := p' # ps, runtime := st'\<rparr>)"
| clone_fail:
    "phase s = Cloning (r # rs) \<Longrightarrow> targetRoots s = p # ps \<Longrightarrow>
     cloneInstance lib r p (runtime s) = Inl e \<Longrightarrow>
     pipeline_step lib cd modelPath infectionPath outputPath s (s\<lparr>phase := Failed e\<rparr>)"
| clone_done:
    "phase s = Cloning [] \<Longrightarrow>
     pipeline_step lib cd modelPath infectionPath outputPath s (s\<lparr>phase := Persisting\<rparr>)"
| persist_fail:
    "phase s = Persisting \<Longrightarrow> persist cd (files s) outputPath (targetRoots s) = Inl e \<Longrightarrow>
     pipeline_step lib cd modelPath infectionPath outputPath s (s\<lparr>phase := Failed e\<rparr>)"
| persist_ok:
    "phase s = Persisting \<Longrightarrow> persist cd (files s) outputPath (targetRoots s) = Inr fs' \<Longrightarrow>
     pipeline_step lib cd modelPath infectionPath outputPath s (s\<lparr>phase := Succeeded, files := fs'\<rparr>)"

text \<open>The run has ended: \<open>processModel\<close> has returned or thrown.\<close>

definition pipeline_final :: "pipeline \<Rightarrow> bool" where
  "pipeline_final s \<longleftrightarrow> (case phase s of Succeeded \<Rightarrow> True | Failed e \<Rightarrow> True | _ \<Rightarrow> False)"

text \<open>
  The invariant of the phases: after stripping there is a target root to work on; the
  donor roots still to validate are a suffix of all donor roots, and those before them
  passed; from the cloning phase on, all donor roots passed.
\<close>

definition pipeline_inv :: "pipeline \<Rightarrow> bool" where
  "pipeline_inv s \<longleftrightarrow>
     (case phase s of
        Loading \<Rightarrow> True
      | Stripping \<Rightarrow> True
      | Sanitizing \<Rightarrow> targetRoots s \<noteq> []
      | Validating rs \<Rightarrow> targetRoots s \<noteq> [] \<and> suffix rs (donorRoots s) \<and>
          roots_valid (take (length (donorRoots s) - length rs) (donorRoots s))
      | Cloning rs \<Rightarrow> targetRoots s \<noteq> [] \<and> roots_valid (donorRoots s)
      | Persisting \<Rightarrow> roots_valid (donorRoots s)
      | Succeeded \<Rightarrow> roots_valid (donorRoots s)
      | Failed e \<Rightarrow> True)"

text \<open>The measure of the remaining work: the phase, then the roots left in a loop.\<close>

fun phase_rank :: "phase \<Rightarrow> nat \<times> nat" where
  "phase_rank Loading = (6, 0)"
| "phase_rank Stripping = (5, 0)"
| "phase_rank Sanitizing = (4, 0)"
| "phase_rank (Validating rs) = (3, length rs)"
| "phase_rank (Cloning rs) = (2, length rs)"
| "phase_rank Persisting = (1, 0)"
| "phase_rank Succeeded = (0, 0)"
| "phase_rank (Failed e) = (0, 0)"

abbreviation pipeline_steps ::
  "lib_SetProp \<Rightarrow> codec \<Rightarrow> string \<Rightarrow> string \<Rightarrow> string \<Rightarrow> pipeline \<Rightarrow> pipeline \<Rightarrow> bool" where
  "pipeline_steps lib cd mp ip op \<equiv> (pipeline_step lib cd mp ip op)\<^sup>*\<^sup>*"

text \<open>The files of the end-to-end example: the model decodes to \<open>Workspace\<close>, the donor to \<open>Part1\<close>.\<close>

abbreviation ex_files :: file_system where
  "ex_files \<equiv> [''model.rbxm'' \<mapsto> [1], ''donor.rbxm'' \<mapsto> [2]]"

inductive_cases pipeline_stepE: "pipeline_step lib cd mp ip op s t"

lemma pipeline_deterministic:
  "pipeline_step lib cd mp ip op s t \<Longrightarrow> pipeline_step lib cd mp ip op s t' \<Longrightarrow> t' = t"
  by (induction rule: pipeline_step.induct) (auto elim!: pipeline_stepE)

lemma pipeline_final_no_step:
  "pipeline_final s \<Longrightarrow> \<nexists>t. pipeline_step lib cd mp ip op s t"
  by (auto simp: pipeline_final_def elim: pipeline_stepE split: phase.splits)

lemma pipeline_step_rank:
  "pipeline_step lib cd mp ip op s t \<Longrightarrow>
     (phase_rank (phase t), phase_rank (phase s)) \<in> less_than <*lex*> less_than"
  by (induction rule: pipeline_step.induct) auto

lemma pipeline_inv_step:
  "pipeline_step lib cd mp ip op s t \<Longrightarrow> pipeline_inv s \<Longrightarrow> pipeline_inv t"
proof (induction rule: pipeline_step.induct)
  case (validate_ok s r rs errs)
  then obtain d where d: "donorRoots s = d @ r # rs" and "roots_valid d"
    by (auto simp: pipeline_inv_def suffix_def)
  moreover have "roots_valid [r]"
    using validate_ok.hyps(2) roots_valid_single [of r "diags s" "[]"] by simp
  ultimately show ?case
    using validate_ok.prems validate_ok.hyps(1) by (simp add: pipeline_inv_def suffix_def)
qed (auto simp: pipeline_inv_def)

lemma pipeline_inv_reachable:
  "(pipeline_step lib cd mp ip op)\<^sup>*\<^sup>* (pipeline_init fs st) s \<Longrightarrow> pipeline_inv s"
proof (induction rule: rtranclp_induct)
  case base
  then show ?case by (simp add: pipeline_inv_def pipeline_init_def)
next
  case (step s t)
  from step.hyps(2) step.IH show ?case by (rule pipeline_inv_step)
qed

lemma pipeline_progress_inv:
  assumes "pipeline_inv s" and "\<not> pipeline_final s"
  shows "\<exists>t. pipeline_step lib cd mp ip op s t"
proof (cases "phase s")
  case Loading
  show ?thesis
  proof (cases "load_inputs cd (files s) mp ip")
    case (Inl e)
    with Loading show ?thesis by (blast intro: load_fail)
  next
    case (Inr x)
    with Loading show ?thesis by (cases x) (auto intro: load_ok)
  qed
next
  case Stripping
  then show ?thesis by (cases "targetRoots s") (blast intro: strip_none strip)+
next
  case Sanitizing
  with assms(1) obtain p ps where "targetRoots s = p # ps"
    by (cases "targetRoots s") (auto simp: pipeline_inv_def)
  with Sanitizing show ?thesis by (blast intro: sanitize)
next
  case (Validating rs)
  show ?thesis
  proof (cases rs)
    case Nil
    with Validating show ?thesis by (blast intro: validate_done)
  next
    case (Cons r rs')
    obtain ok errs where "validateInstance r (diags s) [] = (ok, errs)" by fastforce
    with Validating Cons show ?thesis by (cases ok) (auto intro: validate_ok validate_fail)
  qed
next
  case (Cloning rs)
  show ?thesis
  proof (cases rs)
    case Nil
    with Cloning show ?thesis by (blast intro: clone_done)
  next
    case (Cons r rs')
    from Cloning assms(1) obtain p ps where tp: "targetRoots s = p # ps"
      by (cases "targetRoots s") (auto simp: pipeline_inv_def)
    show ?thesis
    proof (cases "cloneInstance lib r p (runtime s)")
      case (Inl e)
      with Cloning Cons tp show ?thesis by (blast intro: clone_fail)
    next
      case (Inr x)
      with Cloning Cons tp show ?thesis by (cases x) (auto intro: clone_ok)
    qed
  qed
next
  case Persisting
  then show ?thesis
    by (cases "persist cd (files s) op (targetRoots s)") (blast intro: persist_fail persist_ok)+
next
  case Succeeded
  with assms(2) show ?thesis by (simp add: pipeline_final_def)
next
  case (Failed e)
  with assms(2) show ?thesis by (simp add: pipeline_final_def)
qed

lemma pipeline_reaches_final_inv:
  "pipeline_inv s \<Longrightarrow> \<exists>t. (pipeline_step lib cd mp ip op)\<^sup>*\<^sup>* s t \<and> pipeline_final t"
proof (induction "phase_rank (phase s)" arbitrary: s
    rule: wf_induct_rule [OF wf_lex_prod [OF wf_less_than wf_less_than]])
  case (1 s)
  show ?case
  proof (cases "pipeline_final s")
    case True
    then show ?thesis by blast
  next
    case False
    with "1.prems" obtain t where st: "pipeline_step lib cd mp ip op s t"
      using pipeline_progress_inv by blast
    from "1.hyps" [OF pipeline_step_rank [OF st] pipeline_inv_step [OF st "1.prems"]]
    obtain u where "(pipeline_step lib cd mp ip op)\<^sup>*\<^sup>* t u" "pipeline_final u" by blast
    with st show ?thesis by (blast intro: converse_rtranclp_into_rtranclp)
  qed
qed

lemma validating_run:
  assumes "phase s = Validating rs"
  shows "case validateRoots rs (diags s) of
           Inr errs \<Rightarrow> (pipeline_step lib cd mp ip op)\<^sup>*\<^sup>* s
                       (s\<lparr>phase := Cloning (donorRoots s), diags := errs\<rparr>)
         | Inl errs \<Rightarrow> (pipeline_step lib cd mp ip op)\<^sup>*\<^sup>* s
                       (s\<lparr>phase := Failed InvalidInfectionStructure, diags := errs\<rparr>)"
  using assms
proof (induction rs arbitrary: s)
  case Nil
  then have "pipeline_step lib cd mp ip op s (s\<lparr>phase := Cloning (donorRoots s)\<rparr>)"
    by (rule validate_done)
  then show ?case by simp
next
  case (Cons r rs)
  obtain ok errs where v: "validateInstance r (diags s) [] = (ok, errs)" by fastforce
  show ?case
  proof (cases ok)
    case True
    with Cons.prems v have st: "pipeline_step lib cd mp ip op s (s\<lparr>phase := Validating rs, diags := errs\<rparr>)"
      by (auto intro: validate_ok)
    from Cons.IH [of "s\<lparr>phase := Validating rs, diags := errs\<rparr>"] st v True show ?thesis
      by (auto split: sum.splits intro: converse_rtranclp_into_rtranclp)
  next
    case False
    with Cons.prems v have "pipeline_step lib cd mp ip op s
        (s\<lparr>phase := Failed InvalidInfectionStructure, diags := errs\<rparr>)"
      by (auto intro: validate_fail)
    with v False show ?thesis by simp
  qed
qed

lemma cloning_run:
  assumes "phase s = Cloning rs" and "targetRoots s = p # ps"
  shows "case cloneChildren lib rs p (runtime s) of
           Inr (p', st') \<Rightarrow> pipeline_steps lib cd mp ip op s
                           (s\<lparr>phase := Persisting, targetRoots := p' # ps, runtime := st'\<rparr>)
         | Inl e \<Rightarrow> (\<exists>t. pipeline_steps lib cd mp ip op s t \<and> phase t = Failed e)"
  using assms
proof (induction rs arbitrary: s p)
  case Nil
  then have "pipeline_step lib cd mp ip op s (s\<lparr>phase := Persisting\<rparr>)" by (intro clone_done)
  moreover have "s\<lparr>phase := Persisting, targetRoots := p # ps, runtime := runtime s\<rparr> = s\<lparr>phase := Persisting\<rparr>"
    using Nil.prems(2) by (cases s) simp
  ultimately show ?case by simp
next
  case (Cons r rs)
  show ?case
  proof (cases "cloneInstance lib r p (runtime s)")
    case (Inl e)
    with Cons.prems have "pipeline_step lib cd mp ip op s (s\<lparr>phase := Failed e\<rparr>)"
      by (auto intro: clone_fail)
    then have "pipeline_steps lib cd mp ip op s (s\<lparr>phase := Failed e\<rparr>)" by simp
    with Inl show ?thesis by auto
  next
    case (Inr x)
    then obtain p' st' where c: "cloneInstance lib r p (runtime s) = Inr (p', st')" by (cases x) auto
    let ?s1 = "s\<lparr>phase := Cloning rs, targetRoots := p' # ps, runtime := st'\<rparr>"
    from Cons.prems c have st: "pipeline_step lib cd mp ip op s ?s1" by (auto intro: clone_ok)
    have eq: "\<And>p'' st''. ?s1\<lparr>phase := Persisting, targetRoots := p'' # ps, runtime := st''\<rparr> =
                s\<lparr>phase := Persisting, targetRoots := p'' # ps, runtime := st''\<rparr>"
      by (cases s) simp
    show ?thesis
    proof (cases "cloneChildren lib rs p' st'")
      case (Inl e)
      with Cons.IH [of ?s1 p'] obtain t where "pipeline_steps lib cd mp ip op ?s1 t" "phase t = Failed e"
        by auto
      with st c Inl show ?thesis by (auto intro: converse_rtranclp_into_rtranclp)
    next
      case (Inr y)
      then obtain p'' st'' where cc: "cloneChildren lib rs p' st' = Inr (p'', st'')" by (cases y) auto
      with Cons.IH [of ?s1 p'] have
        "pipeline_steps lib cd mp ip op ?s1 (?s1\<lparr>phase := Persisting, targetRoots := p'' # ps, runtime := st''\<rparr>)"
        by simp
      then have "pipeline_steps lib cd mp ip op ?s1 (s\<lparr>phase := Persisting, targetRoots := p'' # ps, runtime := st''\<rparr>)"
        by (simp only: eq)
      with st c cc show ?thesis by (auto intro: converse_rtranclp_into_rtranclp)
    qed
  qed
qed

lemma pipeline_prefix_run:
  assumes "load_inputs cd fs mp ip = Inr (p # ps, iroots)"
  shows "pipeline_steps lib cd mp ip op (pipeline_init fs st)
           \<lparr>phase = Validating iroots, files = fs,
            targetRoots = fst (findAndRemoveSuspiciousScripts (removeInstances namesToRemove p)) # ps,
            donorRoots = iroots, diags = [], runtime = cacheScriptSources_list iroots st\<rparr>"
proof -
  let ?s0 = "pipeline_init fs st"
  let ?s1 = "?s0\<lparr>phase := Stripping, targetRoots := p # ps, donorRoots := iroots,
                    runtime := cacheScriptSources_list iroots (runtime ?s0)\<rparr>"
  let ?s2 = "?s1\<lparr>phase := Sanitizing, targetRoots := removeInstances namesToRemove p # ps\<rparr>"
  let ?s3 = "?s2\<lparr>phase := Validating (donorRoots ?s2),
                    targetRoots := fst (findAndRemoveSuspiciousScripts (removeInstances namesToRemove p)) # ps\<rparr>"
  have "pipeline_step lib cd mp ip op ?s0 ?s1"
    using assms by (intro load_ok) (simp_all add: pipeline_init_def)
  moreover have "pipeline_step lib cd mp ip op ?s1 ?s2" by (intro strip) simp_all
  moreover have "pipeline_step lib cd mp ip op ?s2 ?s3" by (intro sanitize) simp_all
  ultimately have "pipeline_steps lib cd mp ip op ?s0 ?s3"
    by (meson converse_rtranclp_into_rtranclp r_into_rtranclp)
  then show ?thesis by (simp add: pipeline_init_def)
qed

lemma pipeline_run:
  "case processModel lib cd fs mp ip op st of
     Inr (fs', st') \<Rightarrow> (\<exists>t. pipeline_steps lib cd mp ip op (pipeline_init fs st) t \<and>
                            phase t = Succeeded \<and> files t = fs' \<and> runtime t = st')
   | Inl e \<Rightarrow> (\<exists>t. pipeline_steps lib cd mp ip op (pipeline_init fs st) t \<and> phase t = Failed e)"
proof (cases "load_inputs cd fs mp ip")
  case (Inl e)
  then have "pipeline_step lib cd mp ip op (pipeline_init fs st) ((pipeline_init fs st)\<lparr>phase := Failed e\<rparr>)"
    by (intro load_fail) (simp_all add: pipeline_init_def)
  then have "pipeline_steps lib cd mp ip op (pipeline_init fs st) ((pipeline_init fs st)\<lparr>phase := Failed e\<rparr>)"
    by simp
  with Inl show ?thesis by (auto simp: processModel_def)
next
  case (Inr x)
  then obtain roots iroots where L: "load_inputs cd fs mp ip = Inr (roots, iroots)" by (cases x) auto
  then obtain p ps where roots: "roots = p # ps" using load_inputs_Inr by (cases roots) blast+
  define q where "q = fst (findAndRemoveSuspiciousScripts (removeInstances namesToRemove p))"
  define st1 where "st1 = cacheScriptSources_list iroots st"
  define s3 where "s3 = \<lparr>phase = Validating iroots, files = fs, targetRoots = q # ps,
                          donorRoots = iroots, diags = [], runtime = st1\<rparr>"
  have run3: "pipeline_steps lib cd mp ip op (pipeline_init fs st) s3"
    using pipeline_prefix_run [OF L [unfolded roots]] by (simp add: s3_def q_def st1_def)
  have pm: "processModel lib cd fs mp ip op st =
     (case validateRoots iroots [] of
        Inl errors \<Rightarrow> Inl InvalidInfectionStructure
      | Inr errors \<Rightarrow>
          (case cloneChildren lib iroots q st1 of
             Inl e \<Rightarrow> Inl e
           | Inr (p', st2) \<Rightarrow> (case persist cd fs op (p' # ps) of Inl e \<Rightarrow> Inl e | Inr fs' \<Rightarrow> Inr (fs', st2))))"
    by (simp add: processModel_load [OF L] roots injectInfection_Cons q_def st1_def
                  split: sum.split prod.split)
  show ?thesis
  proof (cases "validateRoots iroots []")
    case (Inl errs)
    from validating_run [of s3 iroots lib cd mp ip op] Inl
    have "pipeline_steps lib cd mp ip op s3 (s3\<lparr>phase := Failed InvalidInfectionStructure, diags := errs\<rparr>)"
      by (simp add: s3_def)
    with run3 Inl pm show ?thesis by (auto intro: rtranclp_trans)
  next
    case (Inr errs)
    let ?s4 = "s3\<lparr>phase := Cloning iroots, diags := errs\<rparr>"
    from validating_run [of s3 iroots lib cd mp ip op] Inr
    have run4: "pipeline_steps lib cd mp ip op s3 ?s4" by (simp add: s3_def)
    have c: "case cloneChildren lib iroots q st1 of
           Inr (p', st') \<Rightarrow> pipeline_steps lib cd mp ip op ?s4
                           (?s4\<lparr>phase := Persisting, targetRoots := p' # ps, runtime := st'\<rparr>)
         | Inl e \<Rightarrow> (\<exists>t. pipeline_steps lib cd mp ip op ?s4 t \<and> phase t = Failed e)"
      using cloning_run [of ?s4 iroots q ps lib] by (simp add: s3_def)
    show ?thesis
    proof (cases "cloneChildren lib iroots q st1")
      case (Inl e)
      with c run3 run4 Inr pm show ?thesis by (auto intro: rtranclp_trans)
    next
      case (Inr y)
      then obtain p' st2 where cc: "cloneChildren lib iroots q st1 = Inr (p', st2)" by (cases y) auto
      let ?s5 = "?s4\<lparr>phase := Persisting, targetRoots := p' # ps, runtime := st2\<rparr>"
      from c cc have run5: "pipeline_steps lib cd mp ip op ?s4 ?s5" by simp
      have to5: "pipeline_steps lib cd mp ip op (pipeline_init fs st) ?s5"
        using run3 run4 run5 by (meson rtranclp_trans)
      show ?thesis
      proof (cases "persist cd fs op (p' # ps)")
        case (Inl e)
        then have "pipeline_step lib cd mp ip op ?s5 (?s5\<lparr>phase := Failed e\<rparr>)"
          by (intro persist_fail) (simp_all add: s3_def)
        with to5 \<open>validateRoots iroots [] = Inr errs\<close> cc Inl pm show ?thesis
          by (auto intro: rtranclp.rtrancl_into_rtrancl)
      next
        case (Inr fs')
        then have "pipeline_step lib cd mp ip op ?s5 (?s5\<lparr>phase := Succeeded, files := fs'\<rparr>)"
          by (intro persist_ok) (simp_all add: s3_def)
        with to5 \<open>validateRoots iroots [] = Inr errs\<close> cc Inr pm show ?thesis
          by (auto intro: rtranclp.rtrancl_into_rtrancl)
      qed
    qed
  qed
qed

lemma pipeline_final_unique:
  "pipeline_steps lib cd mp ip op s t \<Longrightarrow> pipeline_steps lib cd mp ip op s u \<Longrightarrow>
   pipeline_final t \<Longrightarrow> pipeline_final u \<Longrightarrow> t = u"
  by (rule deterministic_final_unique [where r = "pipeline_step lib cd mp ip op"])
     (auto dest: pipeline_final_no_step intro: pipeline_deterministic)

lemma pipeline_result:
  assumes t: "pipeline_steps lib cd mp ip op (pipeline_init fs st) t" and f: "pipeline_final t"
  shows "processModel lib cd fs mp ip op st =
           (case phase t of Failed e \<Rightarrow> Inl e | _ \<Rightarrow> Inr (files t, runtime t))"
proof (cases "processModel lib cd fs mp ip op st")
  case (Inl e)
  with pipeline_run [where lib = lib and cd = cd and fs = fs and mp = mp and ip = ip and op = op and st = st] obtain t0 where
    t0: "pipeline_steps lib cd mp ip op (pipeline_init fs st) t0" "phase t0 = Failed e" by auto
  then have "t = t0" using t f by (intro pipeline_final_unique) (auto simp: pipeline_final_def)
  with t0 Inl show ?thesis by simp
next
  case (Inr x)
  then obtain fs' st' where r: "processModel lib cd fs mp ip op st = Inr (fs', st')" by (cases x) auto
  with pipeline_run [where lib = lib and cd = cd and fs = fs and mp = mp and ip = ip and op = op and st = st] obtain t0 where
    t0: "pipeline_steps lib cd mp ip op (pipeline_init fs st) t0" "phase t0 = Succeeded"
        "files t0 = fs'" "runtime t0 = st'" by auto
  then have "t = t0" using t f by (intro pipeline_final_unique) (auto simp: pipeline_final_def)
  with t0 r show ?thesis by simp
qed

lemma pipeline_ex:
  "\<exists>t. pipeline_steps Instance_SetProp ex_codec ''model.rbxm'' ''donor.rbxm'' ''out.rbxm''
         (pipeline_init ex_files ex_st0) t \<and> phase t = Succeeded \<and>
       files t = ex_files(''out.rbxm'' \<mapsto> [7])"
  using pipeline_run [where lib = Instance_SetProp and cd = ex_codec and fs = ex_files
      and mp = "''model.rbxm''" and ip = "''donor.rbxm''" and op = "''out.rbxm''" and st = ex_st0]
    processModel_ex
  by auto

subsection \<open>Properties of the orchestrator machine\<close>

text \<open>
  \<open>processModel\<close> refines the phase machine: it returns the file system \<open>fs'\<close>
  and runtime state \<open>st'\<close> exactly when the machine, started on the initial state,
  reaches \<open>Succeeded\<close> with these, and it throws \<open>e\<close> exactly when the machine
  reaches \<open>Failed e\<close>.
\<close>

lemma processModel_refines_pipeline:
  "(processModel lib cd fs mp ip op st = Inr (fs', st') \<longleftrightarrow>
      (\<exists>t. pipeline_steps lib cd mp ip op (pipeline_init fs st) t \<and>
           phase t = Succeeded \<and> files t = fs' \<and> runtime t = st')) \<and>
   (processModel lib cd fs mp ip op st = Inl e \<longleftrightarrow>
      (\<exists>t. pipeline_steps lib cd mp ip op (pipeline_init fs st) t \<and> phase t = Failed e))"
proof -
  note run = pipeline_run [where lib = lib and cd = cd and fs = fs and mp = mp and ip = ip
      and op = op and st = st]
  have ok: "processModel lib cd fs mp ip op st = Inr (fs', st')"
    if "pipeline_steps lib cd mp ip op (pipeline_init fs st) t" "phase t = Succeeded"
       "files t = fs'" "runtime t = st'" for t
    using pipeline_result [OF that(1)] that(2-4) by (simp add: pipeline_final_def)
  have fail: "processModel lib cd fs mp ip op st = Inl e"
    if "pipeline_steps lib cd mp ip op (pipeline_init fs st) t" "phase t = Failed e" for t
    using pipeline_result [OF that(1)] that(2) by (simp add: pipeline_final_def)
  show ?thesis
    using run ok fail by (auto split: sum.splits)
qed

text \<open>
  Every run of the phase machine is finite: the converse of the step relation is
  well founded, whatever the codec, the library and the files.
\<close>

lemma pipeline_terminates: "wf {(t, s). pipeline_step lib cd mp ip op s t}"
proof (rule wf_subset)
  show "wf (inv_image (less_than <*lex*> less_than) (\<lambda>s. phase_rank (phase s)))"
    by (intro wf_inv_image wf_lex_prod wf_less_than)
  show "{(t, s). pipeline_step lib cd mp ip op s t} \<subseteq>
          inv_image (less_than <*lex*> less_than) (\<lambda>s. phase_rank (phase s))"
    by (auto dest: pipeline_step_rank)
qed

text \<open>
  From every state a run can reach, the run can go on to a final state: the
  orchestrator always either writes its output or throws.
\<close>

lemma pipeline_always_finishes:
  "pipeline_steps lib cd mp ip op (pipeline_init fs st) s \<Longrightarrow>
   \<exists>t. pipeline_steps lib cd mp ip op s t \<and> pipeline_final t"
  by (rule pipeline_reaches_final_inv [OF pipeline_inv_reachable])

text \<open>
  C24: no donor root is cloned before all are validated: in every reachable state of the
  cloning, persisting or succeeded phase, every node of every donor root is free of
  \<open>null\<close> and \<open>undefined\<close> properties.
\<close>

theorem pipeline_validates_before_cloning:
  assumes "pipeline_steps lib cd mp ip op (pipeline_init fs st) s"
    and "phase s = Cloning rs \<or> phase s = Persisting \<or> phase s = Succeeded"
  shows "roots_valid (donorRoots s)"
  using pipeline_inv_reachable [OF assms(1)] assms(2) by (auto simp: pipeline_inv_def)

theorem pipeline_validates_before_cloning_witness:
  "\<exists>t. pipeline_steps Instance_SetProp ex_codec ''model.rbxm'' ''donor.rbxm'' ''out.rbxm''
         (pipeline_init ex_files ex_st0) t \<and>
       (phase t = Cloning [] \<or> phase t = Persisting \<or> phase t = Succeeded) \<and>
       roots_valid (donorRoots t)"
proof -
  from pipeline_ex obtain t where
    t: "pipeline_steps Instance_SetProp ex_codec ''model.rbxm'' ''donor.rbxm'' ''out.rbxm''
          (pipeline_init ex_files ex_st0) t" "phase t = Succeeded" by blast
  then have "roots_valid (donorRoots t)"
    using pipeline_validates_before_cloning [OF t(1), of "[]"] by simp
  with t show ?thesis by blast
qed

text \<open>
  Progress: a reachable state that is not final always has a next step, so the
  orchestrator never gets stuck between phases (after stripping there is always a target
  root to sanitize and to clone into).
\<close>

lemma pipeline_progress:
  "pipeline_steps lib cd mp ip op (pipeline_init fs st) s \<Longrightarrow> \<not> pipeline_final s \<Longrightarrow>
   \<exists>t. pipeline_step lib cd mp ip op s t"
  by (rule pipeline_progress_inv [OF pipeline_inv_reachable])

end
