(* ===== verification/Cli.thy ===== *)
theory Cli
  imports Pipeline
begin

text \<open>
  The command-line surface of \<open>src/bridge.ts\<close>: \<open>RbxmBridge.loadInfection\<close> (lines
  299--322), \<open>RbxmBridge.validateModel\<close> (lines 324--352), \<open>RbxmBridge.printUsage\<close>
  (lines 354--364) and \<open>main\<close> (lines 367--415), with \<open>processModel\<close>'s own
  \<open>catch\<close> (lines 293--296).  A run of \<open>main\<close> is a function of the argument list
  \<open>process.argv.slice(2)\<close>, the file system and the codec; its result is what the
  process prints, in order, its exit status and the file system it leaves.
  \<open>process.exit(1)\<close> ends the run there; a normal return exits with status 0.

  Printed lines are values of \<open>console_line\<close>: \<open>console.log\<close> of a fixed text,
  \<open>console.log(JSON.stringify(v))\<close> of a JSON value, \<open>console.error\<close> of a fixed
  text, and \<open>console.error\<close> of a prefix followed by a caught error.  The progress
  messages of the merge (\<open>[INFO] ...\<close>, the hierarchy dump) are logging only and are
  not part of the model.  JSON values and \<open>JSON.stringify\<close> are modelled for the
  shapes the code prints: strings, non-negative integers, booleans, arrays and objects.
\<close>

datatype json =
    JString string
  | JNumber nat
  | JBool bool
  | JArray "json list"
  | JObject "(string \<times> json) list"

text \<open>\<open>JSON.stringify\<close> of a string: quote, backslash and control characters escaped.\<close>

definition hex_digit :: "nat \<Rightarrow> char" where
  "hex_digit n = (if n < 10 then char_of (48 + n) else char_of (87 + n))"

definition json_escape_char :: "char \<Rightarrow> string" where
  "json_escape_char c =
     (let n = (of_char c :: nat) in
      if n = 34 then [CHR 0x5C, CHR 0x22]
      else if n = 92 then [CHR 0x5C, CHR 0x5C]
      else if n = 8 then [CHR 0x5C, CHR ''b'']
      else if n = 12 then [CHR 0x5C, CHR ''f'']
      else if n = 10 then [CHR 0x5C, CHR ''n'']
      else if n = 13 then [CHR 0x5C, CHR ''r'']
      else if n = 9 then [CHR 0x5C, CHR ''t'']
      else if n < 32 then [CHR 0x5C, CHR ''u'', CHR ''0'', CHR ''0'', hex_digit (n div 16), hex_digit (n mod 16)]
      else [c])"

definition json_quote :: "string \<Rightarrow> string" where
  "json_quote s = CHR 0x22 # concat (map json_escape_char s) @ [CHR 0x22]"

fun decimal :: "nat \<Rightarrow> string" where
  "decimal n = (if n < 10 then [char_of (48 + n)] else decimal (n div 10) @ [char_of (48 + n mod 10)])"

text \<open>\<open>Array.prototype.join(",")\<close>, as \<open>JSON.stringify\<close> separates elements and members.\<close>

fun join_comma :: "string list \<Rightarrow> string" where
  "join_comma [] = []"
| "join_comma [s] = s"
| "join_comma (s # ss) = s @ '','' @ join_comma ss"

fun json_stringify :: "json \<Rightarrow> string" where
  "json_stringify (JString s) = json_quote s"
| "json_stringify (JNumber n) = decimal n"
| "json_stringify (JBool b) = (if b then ''true'' else ''false'')"
| "json_stringify (JArray vs) = ''['' @ join_comma (map json_stringify vs) @ '']''"
| "json_stringify (JObject kvs) =
     ''{'' @ join_comma (map (\<lambda>(k, v). json_quote k @ '':'' @ json_stringify v) kvs) @ ''}''"

datatype console_line =
    Log string
  | LogJson json
  | ErrLine string
  | ErrCaught string error

text \<open>What reaches the standard output stream: \<open>console.log\<close> lines, in order.\<close>

fun stdout_line :: "console_line \<Rightarrow> string option" where
  "stdout_line (Log s) = Some s"
| "stdout_line (LogJson j) = Some (json_stringify j)"
| "stdout_line (ErrLine s) = None"
| "stdout_line (ErrCaught msg e) = None"

definition stdout_text :: "console_line list \<Rightarrow> string list" where
  "stdout_text ls = List.map_filter stdout_line ls"

record cli_result =
  printed :: "console_line list"
  exit_code :: nat
  files_after :: file_system

subsection \<open>The three commands\<close>

text \<open>\<open>root.Name || "Unknown"\<close>: the empty string is falsy.\<close>

definition or_Unknown :: "string \<Rightarrow> string" where
  "or_Unknown s = (if s = [] then ''Unknown'' else s)"

definition root_metadata :: "inst \<Rightarrow> json" where
  "root_metadata root =
     JObject [(''name'', JString (or_Unknown (Name root))),
              (''className'', JString (or_Unknown (ClassName root))),
              (''childrenCount'', JNumber (length (Children root)))]"

definition loadInfection :: "codec \<Rightarrow> file_system \<Rightarrow> string \<Rightarrow> cli_result" where
  "loadInfection cd fs infectionPath =
     (let fail = (\<lambda>e. \<lparr>printed = [ErrCaught ''[ERROR] Loading infection failed: '' e], exit_code = 1,
                       files_after = fs\<rparr>)
      in case fs infectionPath of
           None \<Rightarrow> fail (ReadFailed infectionPath)
         | Some infectionBuffer \<Rightarrow>
         (case ReadFromBuffer cd infectionBuffer of
            None \<Rightarrow> fail DecodeFailed
          | Some [] \<Rightarrow> fail InvalidOrEmptyInfection
          | Some roots \<Rightarrow>
              \<lparr>printed = [LogJson (JObject [(''roots'', JArray (map root_metadata roots))])],
               exit_code = 0, files_after = fs\<rparr>))"

text \<open>
  The loop of lines 336--338, \<open>isValid = validateInstance(root, errors) && isValid\<close>:
  the call comes first, so every root is validated and all diagnostics are collected.
\<close>

fun validateModelRoots :: "inst list \<Rightarrow> diag list \<Rightarrow> bool \<Rightarrow> bool \<times> diag list" where
  "validateModelRoots [] errors isValid = (isValid, errors)"
| "validateModelRoots (root # roots) errors isValid =
     (case validateInstance root errors [] of
        (ok, errors') \<Rightarrow> validateModelRoots roots errors' (ok \<and> isValid))"

definition validateModel :: "codec \<Rightarrow> file_system \<Rightarrow> string \<Rightarrow> cli_result" where
  "validateModel cd fs modelPath =
     (let fail = (\<lambda>e. \<lparr>printed = [ErrCaught ''[ERROR] Validation failed: '' e], exit_code = 1,
                       files_after = fs\<rparr>)
      in case fs modelPath of
           None \<Rightarrow> fail (ReadFailed modelPath)
         | Some modelBuffer \<Rightarrow>
         (case ReadFromBuffer cd modelBuffer of
            None \<Rightarrow> fail DecodeFailed
          | Some [] \<Rightarrow> fail InvalidOrEmptyModel
          | Some roots \<Rightarrow>
              (case validateModelRoots roots [] True of
                 (isValid, errors) \<Rightarrow>
                   \<lparr>printed = [LogJson (JObject [(''valid'', JBool isValid),
                                               (''errors'', JArray (map (JString \<circ> diag_message) errors)),
                                               (''rootCount'', JNumber (length roots))])],
                    exit_code = 0, files_after = fs\<rparr>)))"

text \<open>\<open>processModel\<close> with its \<open>catch\<close>: a failure is reported and exits with status 1.\<close>

definition processModel_cli ::
  "lib_SetProp \<Rightarrow> codec \<Rightarrow> file_system \<Rightarrow> string \<Rightarrow> string \<Rightarrow> string \<Rightarrow> rt_state \<Rightarrow> cli_result" where
  "processModel_cli lib cd fs modelPath infectionPath outputPath st =
     (case processModel lib cd fs modelPath infectionPath outputPath st of
        Inl e \<Rightarrow> \<lparr>printed = [ErrCaught ''[ERROR] Processing failed: '' e], exit_code = 1, files_after = fs\<rparr>
      | Inr (fs', st') \<Rightarrow> \<lparr>printed = [], exit_code = 0, files_after = fs'\<rparr>)"

definition printUsage :: "console_line list" where
  "printUsage =
     map Log
       [''Usage:'',
        ''  node rbxm_bridge.js process <model_path> <infection_path> <output_path>'',
        ''  node rbxm_bridge.js load <infection_path>'',
        ''  node rbxm_bridge.js validate <model_path>'',
        '''',
        ''Commands:'',
        ''  process   - Inject infection into model and save result'',
        ''  load      - Load infection file and return metadata'',
        ''  validate  - Validate model file structure'']"

definition usage_error :: "string \<Rightarrow> file_system \<Rightarrow> cli_result" where
  "usage_error msg fs = \<lparr>printed = ErrLine msg # printUsage, exit_code = 1, files_after = fs\<rparr>"

definition main :: "lib_SetProp \<Rightarrow> codec \<Rightarrow> file_system \<Rightarrow> rt_state \<Rightarrow> string list \<Rightarrow> cli_result" where
  "main lib cd fs st args =
     (case args of
        [] \<Rightarrow> \<lparr>printed = printUsage, exit_code = 1, files_after = fs\<rparr>
      | command # _ \<Rightarrow>
          (if command = ''process'' then
             (if length args \<noteq> 4 then usage_error ''Error: process command requires 3 arguments'' fs
              else processModel_cli lib cd fs (args ! 1) (args ! 2) (args ! 3) st)
           else if command = ''load'' then
             (if length args \<noteq> 2 then usage_error ''Error: load command requires 1 argument'' fs
              else loadInfection cd fs (args ! 1))
           else if command = ''validate'' then
             (if length args \<noteq> 2 then usage_error ''Error: validate command requires 1 argument'' fs
              else validateModel cd fs (args ! 1))
           else usage_error (''Error: Unknown command '' @ [CHR 0x27] @ command @ [CHR 0x27]) fs))"

declare stdout_text_def [model_defs] hex_digit_def [model_defs] json_escape_char_def [model_defs] json_quote_def [model_defs]
  or_Unknown_def [model_defs] root_metadata_def [model_defs] loadInfection_def [model_defs]
  validateModel_def [model_defs] processModel_cli_def [model_defs] printUsage_def [model_defs]
  usage_error_def [model_defs] main_def [model_defs]

text \<open>The shapes of the JSON documents of the specification's command table.\<close>

fun is_JString :: "json \<Rightarrow> bool" where
  "is_JString (JString s) = True"
| "is_JString _ = False"

definition root_schema :: "json \<Rightarrow> bool" where
  "root_schema j \<longleftrightarrow>
     (case j of
        JObject [(k1, JString n), (k2, JString c), (k3, JNumber k)] \<Rightarrow>
          k1 = ''name'' \<and> k2 = ''className'' \<and> k3 = ''childrenCount''
      | _ \<Rightarrow> False)"

definition load_schema :: "json \<Rightarrow> bool" where
  "load_schema j \<longleftrightarrow>
     (case j of JObject [(k, JArray rs)] \<Rightarrow> k = ''roots'' \<and> list_all root_schema rs | _ \<Rightarrow> False)"

definition validate_schema :: "json \<Rightarrow> bool" where
  "validate_schema j \<longleftrightarrow>
     (case j of
        JObject [(k1, JBool v), (k2, JArray es), (k3, JNumber n)] \<Rightarrow>
          k1 = ''valid'' \<and> k2 = ''errors'' \<and> k3 = ''rootCount'' \<and> list_all is_JString es
      | _ \<Rightarrow> False)"

subsection \<open>Lemmas\<close>

lemma validateModelRoots_ref:
  "validateModelRoots rs errs ok = (ok \<and> roots_valid rs, errs @ tree_diags_list rs [])"
proof (induction rs arbitrary: errs ok)
  case Nil
  then show ?case by simp
next
  case (Cons r rs)
  then show ?case by (auto simp: validate_ref roots_valid_def list_all_iff)
qed

lemma root_schema_metadata: "root_schema (root_metadata r)"
  by (simp add: root_metadata_def root_schema_def)

lemma main_cases:
  "main lib cd fs st args =
     (if args = [] then \<lparr>printed = printUsage, exit_code = 1, files_after = fs\<rparr>
      else if hd args = ''process'' \<and> length args = 4
        then processModel_cli lib cd fs (args ! 1) (args ! 2) (args ! 3) st
      else if hd args = ''load'' \<and> length args = 2 then loadInfection cd fs (args ! 1)
      else if hd args = ''validate'' \<and> length args = 2 then validateModel cd fs (args ! 1)
      else if hd args = ''process'' then usage_error ''Error: process command requires 3 arguments'' fs
      else if hd args = ''load'' then usage_error ''Error: load command requires 1 argument'' fs
      else if hd args = ''validate'' then usage_error ''Error: validate command requires 1 argument'' fs
      else usage_error (''Error: Unknown command '' @ [CHR 0x27] @ hd args @ [CHR 0x27]) fs)"
  by (cases args) (auto simp: main_def)

lemma loadInfection_typed: "LogJson j \<in> set (printed (loadInfection cd fs p)) \<Longrightarrow> load_schema j"
  by (auto simp: loadInfection_def load_schema_def list_all_iff root_schema_metadata
           split: option.splits list.splits)

lemma validateModel_typed: "LogJson j \<in> set (printed (validateModel cd fs p)) \<Longrightarrow> validate_schema j"
  by (auto simp: validateModel_def validate_schema_def list_all_iff split: option.splits list.splits prod.splits)

lemma processModel_cli_no_json: "LogJson j \<notin> set (printed (processModel_cli lib cd fs mp ip op st))"
  by (auto simp: processModel_cli_def split: sum.splits)

lemma usage_no_json: "LogJson j \<notin> set printUsage" "LogJson j \<notin> set (printed (usage_error msg fs))"
  by (auto simp: printUsage_def usage_error_def)

lemma loadInfection_files [simp]: "files_after (loadInfection cd fs p) = fs"
  by (simp add: loadInfection_def Let_def split: option.splits list.splits)

lemma validateModel_files [simp]: "files_after (validateModel cd fs p) = fs"
  by (simp add: validateModel_def Let_def split: option.splits list.splits prod.splits)

lemma usage_error_sel [simp]:
  "files_after (usage_error msg fs) = fs" "exit_code (usage_error msg fs) = 1"
  "printed (usage_error msg fs) = ErrLine msg # printUsage"
  by (simp_all add: usage_error_def)

subsection \<open>Properties of main\<close>

text \<open>
  C25: a malformed invocation (no command, an unknown command, or a wrong number of
  arguments) prints the usage text last, exits with status 1 and writes no file.
\<close>

theorem main_malformed_usage:
  assumes "args = [] \<or> hd args \<notin> {''process'', ''load'', ''validate''} \<or>
           (hd args = ''process'' \<and> length args \<noteq> 4) \<or>
           (hd args \<in> {''load'', ''validate''} \<and> length args \<noteq> 2)"
  shows "exit_code (main lib cd fs st args) = 1 \<and> files_after (main lib cd fs st args) = fs \<and>
         suffix printUsage (printed (main lib cd fs st args))"
  using assms by (auto simp: main_cases intro: suffix_ConsI)

theorem main_malformed_usage_witness:
  "exit_code (main Instance_SetProp ex_codec Map.empty ex_st0 [''frobnicate'']) = 1 \<and>
   files_after (main Instance_SetProp ex_codec Map.empty ex_st0 [''frobnicate'']) = Map.empty \<and>
   suffix printUsage (printed (main Instance_SetProp ex_codec Map.empty ex_st0 [''frobnicate'']))"
  using main_malformed_usage [of "[''frobnicate'']"] by simp

text \<open>
  C26: the \<open>validate\<close> command on a file that decodes to a non-empty root list prints
  one JSON document: \<open>valid\<close> is true exactly when no node of any root has a
  \<open>null\<close> or \<open>undefined\<close> property, \<open>errors\<close> holds the messages of all
  diagnostics of all roots in pre-order (validation never stops at an invalid root), and
  \<open>rootCount\<close> is the number of roots; it exits with status 0.
\<close>

theorem validate_command_report:
  assumes "fs mp = Some b" and "ReadFromBuffer cd b = Some roots" and "roots \<noteq> []"
  shows "main lib cd fs st [''validate'', mp] =
           \<lparr>printed = [LogJson (JObject [(''valid'', JBool (roots_valid roots)),
                         (''errors'', JArray (map (JString \<circ> diag_message) (tree_diags_list roots []))),
                         (''rootCount'', JNumber (length roots))])],
            exit_code = 0, files_after = fs\<rparr>"
  using assms by (cases roots) (simp_all add: main_def validateModel_def validateModelRoots_ref)

theorem validate_command_report_witness:
  "[''m.rbxm'' \<mapsto> [1]] ''m.rbxm'' = Some [1 :: byte] \<and>
   ReadFromBuffer ex_codec [1] = Some [ex_Workspace] \<and> [ex_Workspace] \<noteq> [] \<and>
   main Instance_SetProp ex_codec [''m.rbxm'' \<mapsto> [1]] ex_st0 [''validate'', ''m.rbxm''] =
     \<lparr>printed = [LogJson (JObject [(''valid'', JBool True), (''errors'', JArray []), (''rootCount'', JNumber 1)])],
      exit_code = 0, files_after = [''m.rbxm'' \<mapsto> [1]]\<rparr>"
  using validate_command_report [of "[''m.rbxm'' \<mapsto> [1]]" "''m.rbxm''" "[1]" ex_codec "[ex_Workspace]"
      Instance_SetProp ex_st0]
  by (simp add: roots_valid_def null_free_def prop_diags_def)

text \<open>
  C27: every JSON document \<open>main\<close> prints has the shape the command table promises:
  \<open>{roots:[{name,className,childrenCount}]}\<close> for \<open>load\<close>,
  \<open>{valid, errors:[string], rootCount}\<close> for \<open>validate\<close>, and no other
  command prints JSON.
\<close>

theorem main_output_typed:
  "LogJson j \<in> set (printed (main lib cd fs st args)) \<Longrightarrow>
   (hd args = ''load'' \<and> load_schema j) \<or> (hd args = ''validate'' \<and> validate_schema j)"
  by (auto simp: main_cases usage_no_json processModel_cli_no_json
           dest: loadInfection_typed validateModel_typed split: if_splits)

theorem main_output_typed_witness:
  "LogJson (JObject [(''roots'', JArray [root_metadata ex_Part1])]) \<in>
     set (printed (main Instance_SetProp ex_codec [''d.rbxm'' \<mapsto> [2]] ex_st0 [''load'', ''d.rbxm''])) \<and>
   hd [''load'', ''d.rbxm''] = ''load'' \<and> load_schema (JObject [(''roots'', JArray [root_metadata ex_Part1])])"
  using main_output_typed [of "JObject [(''roots'', JArray [root_metadata ex_Part1])]" Instance_SetProp
      ex_codec "[''d.rbxm'' \<mapsto> [2]]" ex_st0 "[''load'', ''d.rbxm'']"]
  by (simp add: main_def loadInfection_def)

text \<open>
  The exact text the two reporting commands print.  \<open>load\<close> of a donor file with
  the root \<open>Part1\<close> (class \<open>Model\<close>, no children) and a root with an empty name
  and class name prints one line, with \<open>"Unknown"\<close> for the empty strings;
  \<open>validate\<close> of the specification's tree \<open>Root \<rightarrow> Child\<close> with \<open>X = null\<close>
  prints the verdict, the one error message and the root count.
\<close>

lemma cli_json_text_examples:
  \<open>stdout_text (printed (main Instance_SetProp
      \<lparr>ReadFromBuffer = \<lambda>_. Some [ex_Part1, Inst 2 [] (GenericInstance [] True) [] []], WriteToBuffer = \<lambda>_. None\<rparr>
      [''d.rbxm'' \<mapsto> [2]] ex_st0 [''load'', ''d.rbxm''])) =
     [''{"roots":[{"name":"Part1","className":"Model","childrenCount":0},{"name":"Unknown","className":"Unknown","childrenCount":0}]}''] \<and>
   stdout_text (printed (main Instance_SetProp
      \<lparr>ReadFromBuffer = \<lambda>_. Some [Inst 0 ''Root'' (LibInstance ''Model'') [] [Inst 1 ''Child'' (LibInstance ''Part'') [(''X'', PNull)] []]],
       WriteToBuffer = \<lambda>_. None\<rparr>
      [''m.rbxm'' \<mapsto> [1]] ex_st0 [''validate'', ''m.rbxm''])) =
     [''{"valid":false,"errors":["[ERROR] Null/undefined property X at Root.Child"],"rootCount":1}'']\<close>
  by (simp add: model_defs js_simps validateModelRoots_ref roots_valid_def null_free_def prop_diags_def
                List.map_filter_def)

end
