(* ===== verification/Spec2Isabelle.thy ===== *)
theory Spec2Isabelle
  imports Orchestrator Cli
begin

text \<open>
  \<^bold>\<open>A verified model of the tree-merge engine of ZenithBotter (\<open>src/bridge.ts\<close>).\<close>

  \<^bold>\<open>The program.\<close>  \<open>src/bridge.ts\<close> reads a target model and a donor model through the
  rbxm-parser codec, strips named utility nodes from the target's first root
  (\<open>removeInstances\<close>), rewrites suspicious script sources in it
  (\<open>findAndRemoveSuspiciousScripts\<close>), validates every donor root (\<open>validateInstance\<close>),
  deep-copies each donor root under the target's first root (\<open>cloneInstance\<close>) and
  writes the target back.  \<open>injectInfection\<close> sequences these steps,
  \<open>RbxmBridge.processModel\<close> wraps them in file I/O and the script-source cache, and
  \<open>main\<close> dispatches the three commands \<open>process\<close>, \<open>load\<close> and \<open>validate\<close>.

  \<^bold>\<open>Library layout\<close> (each theory imports the ones it builds on).
  \<^item> \<open>Prelude\<close>: bytes, the JavaScript string primitives \<open>toLowerCase\<close> and
    \<open>includes\<close> (proved equal to \<open>Sublist.sublist\<close>), JavaScript \<open>Map\<close> as an
    association list updated by \<open>AList.update\<close>, the collections \<open>js_simps\<close> and
    \<open>model_defs\<close> that let witnesses evaluate by \<open>simp\<close>, and the uniqueness of final
    states of a deterministic relation.
  \<^item> \<open>Model\<close>: property values (\<open>pvalue\<close>, \<open>raw\<close>), the instance tree \<open>inst\<close>
    (identity, \<open>Name\<close>, JavaScript class, \<open>_props\<close>, \<open>Children\<close>), \<open>GenericInstance\<close>
    and its \<open>SetProp\<close> (lines 22--54) and the error values of every exception.  The
    rbxm-parser base \<open>SetProp\<close> is a parameter \<open>lib\<close> with the contracts
    \<open>lib_keys_ok\<close> (writes only its key) and \<open>lib_total\<close> (never throws), both met by
    \<open>Instance_SetProp\<close> (store and return true).
  \<^item> \<open>Registry\<close>: \<open>instanceConstructors\<close> and the constructor choice of
    \<open>cloneInstance\<close> (lines 56--68, 124--129).
  \<^item> \<open>Clone\<close>: the run-time state \<open>rt_state\<close> (the module-level \<open>scriptSourceCache\<close>
    keyed by node identity, and the allocation of fresh node identities),
    \<open>cacheScriptSources\<close> (lines 81--93), the property copy \<open>clone_props\<close> (131--151),
    the script-source step (156--164) and \<open>cloneInstance\<close> (121--173), which returns the
    target parent with the new node appended.
  \<^item> \<open>Validate\<close>: \<open>validateInstance\<close> (95--119), its shared \<open>errors\<close> array as an
    accumulated list of diagnostics, against a pre-order reference; the dotted path and
    its inverse \<open>split_dots\<close>.
  \<^item> \<open>Remove\<close>: \<open>removeInstances\<close> (175--186).  \<open>Sanitize\<close>:
    \<open>findAndRemoveSuspiciousScripts\<close> (188--213) with the keyword loop \<open>first_match\<close>.
  \<^item> \<open>Pipeline\<close>: \<open>injectInfection\<close> (215--258) and \<open>processModel\<close> (261--297) as
    functions into \<open>error + _\<close>; the codec is an interface record whose \<open>None\<close> is a
    throw, the file system a map from paths to contents; \<open>load_inputs\<close> and
    \<open>persist\<close> are the reading and writing phases.
  \<^item> \<open>Orchestrator\<close>: the same code as an inductive small-step machine
    \<open>pipeline_step\<close>, one rule per phase and per iteration of the two donor loops, a
    throw being a step to \<open>Failed\<close>.
  \<^item> \<open>Cli\<close>: \<open>loadInfection\<close>, \<open>validateModel\<close>, \<open>printUsage\<close> and \<open>main\<close>
    (299--415); a run is the list of printed lines, the exit status and the file system
    left behind; JSON documents and \<open>JSON.stringify\<close> for the shapes printed.

  \<^bold>\<open>What is proved.\<close>
  \<^item> Cloning: structure preserved (C1), no \<open>UniqueId\<close> and one entry per key (C2), the
    property copy equals a reference filter (C6); strings rejected by
    \<open>GenericInstance.SetProp\<close> are silently lost (C9); the size guards with their exact
    boundaries (C17: strings over 500000 characters, C18: binary payloads over 1000000
    bytes); the registry reports the right class (C19).  The script-source cache is
    transparent within a run (C10): with distinct node identities and a cache that agrees
    with the donor sources, filling it changes neither the merged tree nor the error; the
    proof runs two clones in step (\<open>same_run\<close>, \<open>run_agree\<close>) by mutual induction.
  \<^item> Validator: verdict against a pre-order reference (C5), diagnostics counted (C15, C16),
    the dotted path splits back into the route's names (C28).
  \<^item> Removal: nothing listed is left below the root (C11), and the pass keeps exactly the
    nodes whose route passes no listed name, in order and unchanged (C12, against the
    route enumeration \<open>routes\<close>).
  \<^item> Sanitizer: the count (C13), idempotence (C14), structure kept (C20), every node's
    properties rewritten exactly when it is flagged (C21), and the two dead keywords
    \<open>_G\<close> and \<open>MarketplaceService\<close> (C7, a bug of the code).
  \<^item> Merge: fail-fast validation (C3), the shape of a successful merge (C4), donor scripts
    are merged with their source, keywords included, because only the target is sanitized
    (C8); \<open>processModel\<close>'s success and its error precedence (C22, C23).
  \<^item> Orchestrator machine: no donor root is cloned before all are validated (C24, by rule
    induction on the phase invariant \<open>pipeline_inv\<close>).  The lemmas of \<open>Orchestrator\<close>
    also relate the machine to \<open>processModel\<close> (the same final state in both directions)
    and show it deterministic, well founded and never stuck.
  \<^item> Command line: malformed invocations print usage and exit 1 (C25), \<open>validate\<close>
    reports the validator's verdict and every diagnostic of every root (C26), and the
    printed JSON has the documented shape (C27).

  No fuel is used: every recursion is structural or on a measure, and the library
  \<open>SetProp\<close> is total by its type (it may return a throw, as \<open>None\<close>).

  \<^bold>\<open>Not modelled, or modelled loosely.\<close>
  \<^item> The rbxm-parser codec (\<open>ReadFromBuffer\<close>, \<open>WriteToBuffer\<close>) is an external
    library and appears only as the \<open>codec\<close> interface: a decoder that returns
    \<open>null\<close> and one that throws are both \<open>DecodeFailed\<close>, an encoder that throws or
    returns an empty buffer is \<open>SerializeFailed\<close>.  The messages of errors thrown by
    the codec, by \<open>fs\<close> or by the JavaScript runtime are kept as error values, not as
    text; a missing target root is \<open>NoTargetRoot\<close> where the code throws a
    \<open>TypeError\<close> (line 176).
  \<^item> \<open>fs.writeFileSync\<close> (line 290) always succeeds in the model.
  \<^item> Console logging: the \<open>[INFO]\<close> and \<open>[SUCCESS]\<close> lines of a \<open>process\<close> run
    (lines 229--291) and \<open>printInstanceHierarchy\<close> (lines 72--79) are not modelled,
    so the printed lines of \<open>process\<close> hold only its error line; \<open>global.gc\<close> has no
    effect.  The \<open>[FATAL]\<close> handlers (lines 411--425) are unreachable in the model,
    since every command catches its own errors.
  \<^item> Strings are lists of 8-bit characters and \<open>toLowerCase\<close> lower-cases ASCII letters
    only: JavaScript also lower-cases non-ASCII letters (the Kelvin sign to \<open>k\<close>), so a
    source that reaches a keyword only through such a letter is outside the model.  A
    \<open>Source\<close> that is not a string reads as absent (the code would throw at line 199).
  \<^item> \<open>cloneInstance\<close> attaches the new node to its parent once its children are cloned,
    where the code sets \<open>Parent\<close> first (line 154); the two differ only on a throw,
    after which the partially mutated target is discarded, since the model returns the
    error alone and a failed run is never written.
  \<^item> Object identity is a natural number \<open>uid\<close>; the cache theorem assumes it
    injective on the donor nodes, as object identity is.
\<close>

end
